theory Spec2Isabelle
  imports Complex_Main "HOL-Library.Multiset"
begin

section \<open>Python values used by the pipeline\<close>

text \<open>
  The development embeds \<^verbatim>\<open>backend/app/rag_pipeline.py\<close> and the settings of
  \<^verbatim>\<open>backend/app/config.py\<close>. A Python \<^verbatim>\<open>str\<close> is a \<^typ>\<open>string\<close> whose
  characters are the code points below 256, with the whitespace and case rules that
  \<^verbatim>\<open>str.isspace\<close> and \<^verbatim>\<open>str.lower\<close> have on them. The value of a float is a
  real number; the floating-point operations of the retriever are a parameter, see
  \<open>float_ops\<close>. Exceptions are the left summand of a sum type.
\<close>

datatype py_error =
    ValueError
  | IndexError
  | External string  \<comment> \<open>an exception raised inside an external component\<close>

text \<open>
  Conversion of a float to text (\<^verbatim>\<open>f"{x:.2f}"\<close>, \<^verbatim>\<open>f"{x:.3f}"\<close> and
  \<^verbatim>\<open>f"{x}"\<close>) belongs to the Python runtime and is taken as a parameter.
\<close>

record py_format =
  fmt_2f :: "real \<Rightarrow> string"
  fmt_3f :: "real \<Rightarrow> string"
  fmt_repr :: "real \<Rightarrow> string"

text \<open>
  \<^verbatim>\<open>str.isspace\<close> on one character: the tabulators and line breaks 9 to 13, the
  separators 28 to 31, the space 32, the next-line control 133 and the no-break space
  160. \<^verbatim>\<open>str.strip()\<close> and \<^verbatim>\<open>str.split()\<close> use the same set.
\<close>

definition isspace :: "char \<Rightarrow> bool" where
  "isspace c \<longleftrightarrow> (of_char c :: nat) \<in> {9, 10, 11, 12, 13, 28, 29, 30, 31, 32, 133, 160}"

definition strip :: "string \<Rightarrow> string" where
  "strip s = rev (dropWhile isspace (rev (dropWhile isspace s)))"

text \<open>
  \<^verbatim>\<open>str.lower\<close> on one character: the letters A to Z, and the capital letters 192
  to 222 of the Latin-1 block without the multiplication sign 215, move to their small
  forms 32 places up; every other character stays.
\<close>

definition lower_char :: "char \<Rightarrow> char" where
  "lower_char c =
     (case map_of (zip ''ABCDEFGHIJKLMNOPQRSTUVWXYZ'' ''abcdefghijklmnopqrstuvwxyz'') c of
        Some l \<Rightarrow> l
      | None \<Rightarrow>
          if 192 \<le> (of_char c :: nat) \<and> (of_char c :: nat) \<le> 222 \<and> (of_char c :: nat) \<noteq> 215
          then char_of ((of_char c :: nat) + 32)
          else c)"

definition lower :: "string \<Rightarrow> string" where
  "lower s = map lower_char s"

text \<open>\<^verbatim>\<open>str.split()\<close> without arguments: the maximal runs of non-whitespace.\<close>

fun split_from :: "string \<Rightarrow> string \<Rightarrow> string list" where
  "split_from cur [] = (if cur = [] then [] else [cur])"
| "split_from cur (c # cs) =
     (if isspace c
      then (if cur = [] then split_from [] cs else cur # split_from [] cs)
      else split_from (cur @ [c]) cs)"

definition split :: "string \<Rightarrow> string list" where
  "split s = split_from [] s"

text \<open>\<^verbatim>\<open>pattern in text\<close> on strings: \<open>pattern\<close> occurs as a contiguous substring.\<close>

fun starts_with :: "string \<Rightarrow> string \<Rightarrow> bool" where
  "starts_with [] ys = True"
| "starts_with (x # xs) [] = False"
| "starts_with (x # xs) (y # ys) = (x = y \<and> starts_with xs ys)"

fun str_contains :: "string \<Rightarrow> string \<Rightarrow> bool" where
  "str_contains pat [] = (pat = [])"
| "str_contains pat (y # ys) = (starts_with pat (y # ys) \<or> str_contains pat ys)"

text \<open>\<^verbatim>\<open>numpy.var\<close> of a list of floats: the population variance.\<close>

definition np_mean :: "real list \<Rightarrow> real" where
  "np_mean xs = sum_list xs / real (length xs)"

definition np_var :: "real list \<Rightarrow> real" where
  "np_var xs = np_mean (map (\<lambda>x. (x - np_mean xs)\<^sup>2) xs)"

section \<open>Settings\<close>

record settings =
  similarity_threshold :: real
  max_context_chunks :: nat
  variance_threshold :: real
  keyword_overlap_threshold :: real
  debug :: bool
  vector_weight :: real
  bm25_weight :: real

definition default_settings :: settings where
  "default_settings =
     \<lparr> similarity_threshold = 65 / 100,
       max_context_chunks = 5,
       variance_threshold = 1 / 10,
       keyword_overlap_threshold = 2 / 10,
       debug = False,
       vector_weight = 7 / 10,
       bm25_weight = 3 / 10 \<rparr>"

text \<open>The field validators of \<^verbatim>\<open>Settings\<close>.\<close>

definition valid_settings :: "settings \<Rightarrow> bool" where
  "valid_settings s \<longleftrightarrow>
     0 \<le> similarity_threshold s \<and> similarity_threshold s \<le> 1 \<and>
     1 \<le> max_context_chunks s \<and> max_context_chunks s \<le> 20 \<and>
     0 \<le> vector_weight s \<and> vector_weight s \<le> 1 \<and>
     0 \<le> bm25_weight s \<and> bm25_weight s \<le> 1 \<and>
     0 \<le> variance_threshold s \<and> variance_threshold s \<le> 1 \<and>
     0 \<le> keyword_overlap_threshold s \<and> keyword_overlap_threshold s \<le> 1"

section \<open>Documents and chunks\<close>

text \<open>The metadata dictionary that \<^verbatim>\<open>_load_documents\<close> builds for each record.\<close>

record meta =
  meta_id :: string
  meta_category :: string
  meta_source :: string
  meta_question :: string
  meta_answer :: string
  meta_tags :: "string list"

text \<open>
  A LangChain \<^verbatim>\<open>Document\<close> as built by the hybrid retriever: the page content and
  the record's metadata extended by \<^verbatim>\<open>score\<close>, \<^verbatim>\<open>vector_score\<close> and
  \<^verbatim>\<open>bm25_score\<close>.
\<close>

record document =
  page_content :: string
  doc_meta :: meta
  doc_score :: real
  doc_vector_score :: real
  doc_bm25_score :: real

text \<open>The inner \<^verbatim>\<open>'metadata'\<close> dictionary of a chunk returned by \<^verbatim>\<open>retrieve\<close>.\<close>

record chunk_meta =
  cm_id :: string
  cm_category :: string
  cm_question :: string
  cm_answer :: string
  cm_tags :: "string list"

text \<open>A chunk returned by \<^verbatim>\<open>retrieve\<close>: the keys \<^verbatim>\<open>content\<close>, \<^verbatim>\<open>score\<close>, \<^verbatim>\<open>metadata\<close>.\<close>

record chunk =
  content :: string
  score :: real
  metadata :: chunk_meta

section \<open>Relevance validation\<close>

text \<open>The lower-cased words of more than two characters of a text.\<close>

definition content_words :: "string \<Rightarrow> string set" where
  "content_words s = set (map lower (filter (\<lambda>word. length word > 2) (split s)))"

definition keyword_overlap :: "string \<Rightarrow> string \<Rightarrow> real" where
  "keyword_overlap query text =
     real (card (content_words query \<inter> content_words text)) / real (card (content_words query))"

text \<open>Validation 3 of \<^verbatim>\<open>validate_relevance\<close> and the final acceptance.\<close>

definition content_coverage ::
  "py_format \<Rightarrow> settings \<Rightarrow> chunk \<Rightarrow> string \<Rightarrow> bool \<times> real \<times> string" where
  "content_coverage F s top_chunk query =
     (let top_score = score top_chunk; query_words = content_words query in
      if query_words \<noteq> {} \<and> keyword_overlap query (content top_chunk) < keyword_overlap_threshold s
      then (False, top_score,
            ''Low keyword overlap '' @ fmt_2f F (keyword_overlap query (content top_chunk)) @
            '' - retrieved content may not be relevant'')
      else (True, top_score, ''All validation checks passed''))"

definition validate_relevance ::
  "py_format \<Rightarrow> settings \<Rightarrow> chunk list \<Rightarrow> string \<Rightarrow> bool \<times> real \<times> string" where
  "validate_relevance F s chunks query =
     (case chunks of
        [] \<Rightarrow> (False, 0, ''No chunks retrieved'')
      | top_chunk # _ \<Rightarrow>
          let top_score = score top_chunk in
          if top_score < similarity_threshold s
          then (False, top_score,
                ''Similarity score '' @ fmt_2f F top_score @ '' below threshold '' @
                fmt_repr F (similarity_threshold s))
          else if length chunks \<ge> 3 \<and> np_var (map score (take 3 chunks)) > variance_threshold s
          then (False, top_score,
                ''High score variance '' @ fmt_3f F (np_var (map score (take 3 chunks))) @
                '' indicates ambiguous query'')
          else content_coverage F s top_chunk query)"

section \<open>The hybrid retriever\<close>

text \<open>
  The FAISS store and the BM25 index are external components and enter as functions:
  \<^verbatim>\<open>similarity_search_with_score(query, k)\<close> yields, for each hit, the \<^verbatim>\<open>id\<close> in the
  metadata of the stored document and its L2 distance; \<^verbatim>\<open>get_scores(tokens)\<close> yields one
  raw score per document. Either may raise.
\<close>

text \<open>
  The floating-point operations of the retriever, one for each place of an operation
  in \<^verbatim>\<open>_get_relevant_documents\<close>: the sum and the quotient of \<^verbatim>\<open>1 / (1 + score)\<close>,
  the quotient of \<^verbatim>\<open>bm25_scores / bm25_max\<close>, the two products and the sum of the
  fused score. What each of them rounds to depends on the precision of its operands
  (the vector store reports single-precision distances), so they are parameters;
  \<open>exact_ops\<close> is the arithmetic of the real numbers, with which they agree wherever
  the exact result is a floating-point number. Comparisons are exact. Results that are
  not finite numbers (overflow, a divisor of 0) are outside the model.
\<close>

record float_ops =
  sim_add :: "real \<Rightarrow> real \<Rightarrow> real"
  sim_div :: "real \<Rightarrow> real \<Rightarrow> real"
  norm_div :: "real \<Rightarrow> real \<Rightarrow> real"
  vec_mul :: "real \<Rightarrow> real \<Rightarrow> real"
  bm25_mul :: "real \<Rightarrow> real \<Rightarrow> real"
  fuse_add :: "real \<Rightarrow> real \<Rightarrow> real"

definition exact_ops :: float_ops where
  "exact_ops =
     \<lparr> sim_add = (+), sim_div = (/), norm_div = (/),
       vec_mul = (*), bm25_mul = (*), fuse_add = (+) \<rparr>"

record hybrid_retriever =
  r_vectorstore :: "string \<Rightarrow> nat \<Rightarrow> py_error + (string \<times> real) list"
  r_bm25_index :: "string list \<Rightarrow> py_error + real list"
  r_document_texts :: "string list"
  r_metadata :: "meta list"
  r_vector_weight :: real
  r_bm25_weight :: real
  r_k :: nat
  r_arith :: float_ops

text \<open>\<^verbatim>\<open>_get_doc_index\<close>: the first position whose metadata has the given, non-empty id.\<close>

fun index_of_id :: "nat \<Rightarrow> meta list \<Rightarrow> string \<Rightarrow> nat option" where
  "index_of_id idx [] doc_id = None"
| "index_of_id idx (m # ms) doc_id =
     (if meta_id m = doc_id then Some idx else index_of_id (Suc idx) ms doc_id)"

definition get_doc_index :: "hybrid_retriever \<Rightarrow> string \<Rightarrow> nat option" where
  "get_doc_index r doc_id =
     (if doc_id \<noteq> [] then index_of_id 0 (r_metadata r) doc_id else None)"

text \<open>The conversion \<^verbatim>\<open>1 / (1 + score)\<close> of an L2 distance to a similarity.\<close>

definition similarity :: "hybrid_retriever \<Rightarrow> real \<Rightarrow> real" where
  "similarity r distance = sim_div (r_arith r) 1 (sim_add (r_arith r) 1 distance)"

text \<open>The loop filling \<^verbatim>\<open>vector_scores_dict\<close>; a later hit overwrites an earlier one.\<close>

fun vector_scores_dict ::
  "hybrid_retriever \<Rightarrow> (nat \<rightharpoonup> real) \<Rightarrow> (string \<times> real) list \<Rightarrow> (nat \<rightharpoonup> real)" where
  "vector_scores_dict r d [] = d"
| "vector_scores_dict r d ((doc_id, distance) # hits) =
     (case get_doc_index r doc_id of
        None \<Rightarrow> vector_scores_dict r d hits
      | Some doc_idx \<Rightarrow> vector_scores_dict r (d(doc_idx \<mapsto> similarity r distance)) hits)"

text \<open>\<^verbatim>\<open>vector_scores_dict.get(idx, 0.0)\<close>.\<close>

definition get_or_zero :: "(nat \<rightharpoonup> real) \<Rightarrow> nat \<Rightarrow> real" where
  "get_or_zero d idx = (case d idx of None \<Rightarrow> 0 | Some v \<Rightarrow> v)"

text \<open>
  The divisor of the BM25 normalisation and the normalised scores. \<^verbatim>\<open>max()\<close> of an
  empty numpy array raises \<^verbatim>\<open>ValueError\<close>.
\<close>

definition bm25_max :: "real list \<Rightarrow> real" where
  "bm25_max bm25_scores = (if Max (set bm25_scores) > 0 then Max (set bm25_scores) else 1)"

definition bm25_scores_normalized :: "hybrid_retriever \<Rightarrow> real list \<Rightarrow> py_error + real list" where
  "bm25_scores_normalized r bm25_scores =
     (if bm25_scores = [] then Inl ValueError
      else Inr (if bm25_max bm25_scores > 0
                then map (\<lambda>x. norm_div (r_arith r) x (bm25_max bm25_scores)) bm25_scores
                else bm25_scores))"

definition combined_score :: "hybrid_retriever \<Rightarrow> (nat \<rightharpoonup> real) \<Rightarrow> real list \<Rightarrow> nat \<Rightarrow> real" where
  "combined_score r vdict bm25n idx =
     fuse_add (r_arith r)
       (vec_mul (r_arith r) (r_vector_weight r) (get_or_zero vdict idx))
       (bm25_mul (r_arith r) (r_bm25_weight r) (bm25n ! idx))"

text \<open>
  The dictionary \<^verbatim>\<open>combined_scores\<close> in insertion order, one entry per document index.
  Reading \<^verbatim>\<open>bm25_scores_normalized[idx]\<close> past the end of the array raises
  \<^verbatim>\<open>IndexError\<close>, which happens exactly when the array is shorter than the corpus.
\<close>

definition combined_scores ::
  "hybrid_retriever \<Rightarrow> (nat \<rightharpoonup> real) \<Rightarrow> real list \<Rightarrow> py_error + (nat \<times> real) list" where
  "combined_scores r vdict bm25n =
     (if length bm25n < length (r_document_texts r) then Inl IndexError
      else Inr (map (\<lambda>idx. (idx, combined_score r vdict bm25n idx))
                  [0 ..< length (r_document_texts r)]))"

text \<open>
  \<^verbatim>\<open>sorted(items, key=lambda x: x[1], reverse=True)\<close>: Python's sort is stable, also
  with \<^verbatim>\<open>reverse=True\<close>, so it is the stable sort by the negated key.
\<close>

definition sorted_indices :: "(nat \<times> real) list \<Rightarrow> (nat \<times> real) list" where
  "sorted_indices items = sort_key (\<lambda>x. - snd x) items"

definition top_indices :: "hybrid_retriever \<Rightarrow> (nat \<times> real) list \<Rightarrow> nat list" where
  "top_indices r items = map fst (take (r_k r) (sorted_indices items))"

text \<open>\<^verbatim>\<open>combined_scores[idx]\<close> on the dictionary.\<close>

definition score_of :: "(nat \<times> real) list \<Rightarrow> nat \<Rightarrow> real" where
  "score_of items idx = (case map_of items idx of Some v \<Rightarrow> v | None \<Rightarrow> 0)"

definition build_document ::
  "hybrid_retriever \<Rightarrow> (nat \<rightharpoonup> real) \<Rightarrow> real list \<Rightarrow> (nat \<times> real) list \<Rightarrow> nat \<Rightarrow> document" where
  "build_document r vdict bm25n items idx =
     \<lparr> page_content = r_document_texts r ! idx,
       doc_meta = r_metadata r ! idx,
       doc_score = score_of items idx,
       doc_vector_score = get_or_zero vdict idx,
       doc_bm25_score = bm25n ! idx \<rparr>"

text \<open>
  The result loop. Every index in \<open>idxs\<close> is a key of \<^verbatim>\<open>combined_scores\<close>, hence
  below the lengths of the texts and of the normalised scores; \<^verbatim>\<open>self._metadata[idx]\<close>
  raises \<^verbatim>\<open>IndexError\<close> when the metadata list is shorter.
\<close>

definition build_results ::
  "hybrid_retriever \<Rightarrow> (nat \<rightharpoonup> real) \<Rightarrow> real list \<Rightarrow> (nat \<times> real) list \<Rightarrow> nat list
     \<Rightarrow> py_error + document list" where
  "build_results r vdict bm25n items idxs =
     (if \<exists>idx \<in> set idxs. length (r_metadata r) \<le> idx then Inl IndexError
      else Inr (map (build_document r vdict bm25n items) idxs))"

definition get_relevant_documents :: "hybrid_retriever \<Rightarrow> string \<Rightarrow> py_error + document list" where
  "get_relevant_documents r query =
     (case r_vectorstore r query (r_k r * 2) of
        Inl e \<Rightarrow> Inl e
      | Inr vector_docs \<Rightarrow>
          let vdict = vector_scores_dict r Map.empty vector_docs;
              tokenized_query = split (lower query)
          in if tokenized_query = [] then Inr []
             else (case r_bm25_index r tokenized_query of
                     Inl e \<Rightarrow> Inl e
                   | Inr bm25_scores \<Rightarrow>
                       (case bm25_scores_normalized r bm25_scores of
                          Inl e \<Rightarrow> Inl e
                        | Inr bm25n \<Rightarrow>
                            (case combined_scores r vdict bm25n of
                               Inl e \<Rightarrow> Inl e
                             | Inr items \<Rightarrow>
                                 build_results r vdict bm25n items (top_indices r items)))))"

section \<open>The pipeline\<close>

text \<open>
  The generation backends of \<^verbatim>\<open>generate_answer\<close>: the hosted inference client
  (\<^verbatim>\<open>use_inference_api\<close>), a local model (\<^verbatim>\<open>llm_model is not None\<close>; tokenizer,
  model and decoder as one function of the prompt), or none.
\<close>

datatype backend =
    Inference_API "string \<Rightarrow> py_error + string"
  | Local_Model "string \<Rightarrow> py_error + string"
  | No_Model

record rag_pipeline =
  retriever :: "hybrid_retriever option"
  llm :: backend

text \<open>\<^verbatim>\<open>docs[:top_k]\<close> with Python's reading of a negative bound.\<close>

definition slice_to :: "'a list \<Rightarrow> int \<Rightarrow> 'a list" where
  "slice_to xs n = (if 0 \<le> n then take (nat n) xs else take (length xs - nat (- n)) xs)"

definition format_result :: "document \<Rightarrow> chunk" where
  "format_result doc =
     \<lparr> content = page_content doc,
       score = doc_score doc,
       metadata = \<lparr> cm_id = meta_id (doc_meta doc),
                    cm_category = meta_category (doc_meta doc),
                    cm_question = meta_question (doc_meta doc),
                    cm_answer = meta_answer (doc_meta doc),
                    cm_tags = meta_tags (doc_meta doc) \<rparr> \<rparr>"

definition retrieve ::
  "settings \<Rightarrow> rag_pipeline \<Rightarrow> string \<Rightarrow> int option \<Rightarrow> py_error + chunk list" where
  "retrieve s p query top_k =
     (if query = [] \<or> strip query = [] then Inr []
      else let top_k' = (case top_k of None \<Rightarrow> int (max_context_chunks s) | Some n \<Rightarrow> n)
           in case retriever p of
                None \<Rightarrow> Inl ValueError
              | Some r \<Rightarrow>
                  (case get_relevant_documents r query of
                     Inl e \<Rightarrow> Inr []
                   | Inr docs \<Rightarrow> Inr (map format_result (slice_to docs top_k'))))"

section \<open>Answer generation\<close>

definition newline :: string where
  "newline = [CHR 0x0A]"

text \<open>\<^verbatim>\<open>sep.join(parts)\<close>.\<close>

fun join :: "string \<Rightarrow> string list \<Rightarrow> string" where
  "join sep [] = []"
| "join sep [x] = x"
| "join sep (x # y # ys) = x @ sep @ join sep (y # ys)"

definition context_part :: "py_format \<Rightarrow> chunk \<Rightarrow> string" where
  "context_part F c =
     ''[Score: '' @ fmt_2f F (score c) @ '']'' @ newline @ cm_answer (metadata c) @ newline"

definition build_prompt :: "py_format \<Rightarrow> string \<Rightarrow> chunk list \<Rightarrow> string" where
  "build_prompt F query chunks =
     ''You are a helpful support assistant. Answer based ONLY on the provided documentation.'' @
     newline @ newline @ ''Context:'' @ newline @
     join newline (map (context_part F) chunks) @
     newline @ newline @ ''Question: '' @ query @
     newline @ newline @ ''Answer based on the context above:''"

text \<open>The shortening of an over-long prompt before it reaches a local model.\<close>

definition truncate_prompt :: "string \<Rightarrow> string" where
  "truncate_prompt prompt =
     (if length prompt > 1024
      then take 512 prompt @ newline @ ''...'' @ newline @ drop (length prompt - 512) prompt
      else prompt)"

definition refusal_patterns :: "string list" where
  "refusal_patterns =
     [''i don't know'', ''i cannot'', ''i'm unable'', ''i don't have'',
      ''insufficient information'', ''i don't have enough'',
      ''cannot answer'', ''unable to answer'']"

text \<open>The text that one of the three branches produces, or the exception it raises.\<close>

definition raw_answer :: "rag_pipeline \<Rightarrow> string \<Rightarrow> chunk \<Rightarrow> py_error + string" where
  "raw_answer p prompt best_chunk =
     (case llm p of
        Inference_API text_generation \<Rightarrow> text_generation prompt
      | Local_Model generate \<Rightarrow> generate (truncate_prompt prompt)
      | No_Model \<Rightarrow> Inr (cm_answer (metadata best_chunk)))"

text \<open>The statements after the branches: strip, refusal check, length check.\<close>

definition post_process :: "chunk \<Rightarrow> string \<Rightarrow> string" where
  "post_process best_chunk generated =
     (let answer = strip generated;
          answer = (if \<exists>pattern \<in> set refusal_patterns. str_contains pattern (lower answer)
                    then cm_answer (metadata best_chunk) else answer)
      in if answer = [] \<or> length answer < 10 then cm_answer (metadata best_chunk) else answer)"

definition generate_answer :: "py_format \<Rightarrow> rag_pipeline \<Rightarrow> string \<Rightarrow> chunk list \<Rightarrow> string" where
  "generate_answer F p query chunks =
     (case chunks of
        [] \<Rightarrow> ''I don't have enough information to answer this question. Please try rephrasing or contact support.''
      | best_chunk # _ \<Rightarrow>
          (case raw_answer p (build_prompt F query chunks) best_chunk of
             Inl e \<Rightarrow> cm_answer (metadata best_chunk)
           | Inr generated \<Rightarrow> post_process best_chunk generated))"

section \<open>The query operation\<close>

record formatted_meta =
  fm_id :: string
  fm_category :: string

record formatted_chunk =
  fc_content :: string
  fc_score :: real
  fc_metadata :: formatted_meta

record query_result =
  qr_answer :: string
  qr_chunks :: "formatted_chunk list"
  qr_confidence :: real
  qr_blocked :: bool
  qr_response_time_ms :: real

definition format_chunk :: "chunk \<Rightarrow> formatted_chunk" where
  "format_chunk c =
     \<lparr> fc_content = content c,
       fc_score = score c,
       fc_metadata = \<lparr> fm_id = cm_id (metadata c), fm_category = cm_category (metadata c) \<rparr> \<rparr>"

definition blocked_answer :: "settings \<Rightarrow> string \<Rightarrow> string" where
  "blocked_answer s validation_reason =
     (if debug s
      then ''I don't have enough information to answer this question. ('' @ validation_reason @
           '') Please try rephrasing or contact support.''
      else ''I don't have enough information to answer this question. Please try rephrasing or contact support.'')"

text \<open>
  The body of the \<^verbatim>\<open>try\<close> block of \<^verbatim>\<open>query\<close>. The clock is read at entry
  (\<open>t_start\<close>) and once more before the result is built (\<open>t_end\<close>).
\<close>

definition query_try ::
  "py_format \<Rightarrow> settings \<Rightarrow> rag_pipeline \<Rightarrow> real \<Rightarrow> real \<Rightarrow> string \<Rightarrow> py_error + query_result" where
  "query_try F s p t_start t_end user_query =
     (case retrieve s p user_query None of
        Inl e \<Rightarrow> Inl e
      | Inr chunks \<Rightarrow>
          (case validate_relevance F s chunks user_query of
             (is_valid, confidence, validation_reason) \<Rightarrow>
               Inr \<lparr> qr_answer = (if is_valid then generate_answer F p user_query chunks
                                   else blocked_answer s validation_reason),
                     qr_chunks = map format_chunk chunks,
                     qr_confidence = confidence,
                     qr_blocked = (\<not> is_valid),
                     qr_response_time_ms = (t_end - t_start) * 1000 \<rparr>))"

definition error_result :: "real \<Rightarrow> real \<Rightarrow> query_result" where
  "error_result t_start t_end =
     \<lparr> qr_answer = ''I encountered an error while processing your question. Please try again or contact support.'',
       qr_chunks = [],
       qr_confidence = 0,
       qr_blocked = True,
       qr_response_time_ms = (t_end - t_start) * 1000 \<rparr>"

definition query ::
  "py_format \<Rightarrow> settings \<Rightarrow> rag_pipeline \<Rightarrow> real \<Rightarrow> real \<Rightarrow> string \<Rightarrow> py_error + query_result" where
  "query F s p t_start t_end user_query =
     (if user_query = [] \<or> strip user_query = []
      then Inr \<lparr> qr_answer = ''Please provide a valid question.'',
                 qr_chunks = [],
                 qr_confidence = 0,
                 qr_blocked = True,
                 qr_response_time_ms = (t_end - t_start) * 1000 \<rparr>
      else (case query_try F s p t_start t_end user_query of
              Inr result \<Rightarrow> Inr result
            | Inl e \<Rightarrow> Inr (error_result t_start t_end)))"

section \<open>Sample inputs\<close>

text \<open>
  Concrete values on which the statements below are instantiated. The sample formatter
  prints a placeholder for every number.
\<close>

definition sample_format :: py_format where
  "sample_format =
     \<lparr> fmt_2f = (\<lambda>_. ''<.2f>''), fmt_3f = (\<lambda>_. ''<.3f>''), fmt_repr = (\<lambda>_. ''<repr>'') \<rparr>"

definition sample_chunk :: "string \<Rightarrow> real \<Rightarrow> chunk" where
  "sample_chunk text x =
     \<lparr> content = text, score = x,
       metadata = \<lparr> cm_id = ''1'', cm_category = ''Billing'',
                    cm_question = ''How do I update my payment method?'',
                    cm_answer = ''Go to Settings > Billing...'',
                    cm_tags = [''billing'', ''payment''] \<rparr> \<rparr>"

definition sample_meta :: meta where
  "sample_meta =
     \<lparr> meta_id = ''1'', meta_category = ''Billing'', meta_source = ''documentation.json'',
       meta_question = ''How do I update my payment method?'',
       meta_answer = ''Go to Settings > Billing...'',
       meta_tags = [''billing'', ''payment''] \<rparr>"

text \<open>
  A retriever over a corpus of one record, built with the weights and the result count
  of the given settings as \<^verbatim>\<open>_build_indices\<close> does; the vector store reports the
  record at the given distance and the BM25 index the given raw score.
\<close>

definition sample_retriever :: "settings \<Rightarrow> real \<Rightarrow> real \<Rightarrow> hybrid_retriever" where
  "sample_retriever s distance raw =
     \<lparr> r_vectorstore = (\<lambda>q k. Inr [(''1'', distance)]),
       r_bm25_index = (\<lambda>tokens. Inr [raw]),
       r_document_texts = [''Billing: update payment method in Settings''],
       r_metadata = [sample_meta],
       r_vector_weight = vector_weight s,
       r_bm25_weight = bm25_weight s,
       r_k = max_context_chunks s,
       r_arith = exact_ops \<rparr>"

definition sample_pipeline :: "settings \<Rightarrow> real \<Rightarrow> real \<Rightarrow> backend \<Rightarrow> rag_pipeline" where
  "sample_pipeline s distance raw b = \<lparr> retriever = Some (sample_retriever s distance raw), llm = b \<rparr>"

definition sample_query :: string where
  "sample_query = ''update payment method''"

text \<open>Settings that pass every validator, with both weights at 1.\<close>

definition equal_weights :: settings where
  "equal_weights = default_settings \<lparr> vector_weight := 1, bm25_weight := 1 \<rparr>"

text \<open>
  Settings that pass every validator, with both weights at one half and two results
  per retrieval. With them every score below is a dyadic fraction, on which
  floating-point arithmetic is exact.
\<close>

definition half_weights :: settings where
  "half_weights =
     default_settings \<lparr> vector_weight := 1 / 2, bm25_weight := 1 / 2, max_context_chunks := 2 \<rparr>"

text \<open>
  A retriever over a corpus of three records, built from the given settings; the
  vector store reports the given hits and the BM25 index the given raw scores.
\<close>

definition billing_meta :: meta where
  "billing_meta =
     \<lparr> meta_id = ''1'', meta_category = ''Billing'', meta_source = ''documentation.json'',
       meta_question = ''How do I update my payment method?'',
       meta_answer = ''Go to Settings > Billing...'',
       meta_tags = [''billing'', ''payment''] \<rparr>"

definition invoice_meta :: meta where
  "invoice_meta =
     \<lparr> meta_id = ''2'', meta_category = ''Billing'', meta_source = ''documentation.json'',
       meta_question = ''Where is my payment receipt?'',
       meta_answer = ''Open Billing > Invoices.'',
       meta_tags = [''billing'', ''invoice''] \<rparr>"

definition password_meta :: meta where
  "password_meta =
     \<lparr> meta_id = ''3'', meta_category = ''Account'', meta_source = ''documentation.json'',
       meta_question = ''How do I reset my password?'',
       meta_answer = ''Use the reset link on the sign-in page.'',
       meta_tags = [''account''] \<rparr>"

definition corpus_retriever :: "settings \<Rightarrow> (string \<times> real) list \<Rightarrow> real list \<Rightarrow> hybrid_retriever" where
  "corpus_retriever s hits raw =
     \<lparr> r_vectorstore = (\<lambda>q k. Inr hits),
       r_bm25_index = (\<lambda>tokens. Inr raw),
       r_document_texts = [''update payment method'', ''payment receipt'', ''reset password''],
       r_metadata = [billing_meta, invoice_meta, password_meta],
       r_vector_weight = vector_weight s,
       r_bm25_weight = bm25_weight s,
       r_k = max_context_chunks s,
       r_arith = exact_ops \<rparr>"

definition corpus_pipeline :: "settings \<Rightarrow> (string \<times> real) list \<Rightarrow> real list \<Rightarrow> rag_pipeline" where
  "corpus_pipeline s hits raw = \<lparr> retriever = Some (corpus_retriever s hits raw), llm = No_Model \<rparr>"

text \<open>
  Two states of the indices. In the first the first record is the nearest vector and
  the second the best lexical match, in the second it is the other way round.
\<close>

definition hits_a :: "(string \<times> real) list" where
  "hits_a = [(''1'', 0), (''2'', 1), (''3'', 3)]"

definition raw_a :: "real list" where
  "raw_a = [1, 2, 0]"

definition hits_b :: "(string \<times> real) list" where
  "hits_b = [(''1'', 1), (''2'', 0), (''3'', 3)]"

definition raw_b :: "real list" where
  "raw_b = [2, 1, 0]"

text \<open>Backends that raise, or decline to answer; a pipeline whose retriever is missing.\<close>

definition failing_backend :: backend where
  "failing_backend = Inference_API (\<lambda>prompt. Inl (External ''inference endpoint unavailable''))"



definition uninitialised_pipeline :: rag_pipeline where
  "uninitialised_pipeline = \<lparr> retriever = None, llm = No_Model \<rparr>"

section \<open>Properties of relevance validation\<close>

lemma np_var_three:
  "np_var [a, b, c] =
     ((a - (a + b + c) / 3)\<^sup>2 + (b - (a + b + c) / 3)\<^sup>2 + (c - (a + b + c) / 3)\<^sup>2) / 3"
  by (simp add: np_var_def np_mean_def add.assoc)

lemma content_words_sample:
  "content_words sample_query = {''update'', ''payment'', ''method''}"
  by (simp add: sample_query_def content_words_def split_def isspace_def lower_def lower_char_def)

lemma keyword_overlap_sample: "keyword_overlap sample_query sample_query = 1"
  by (simp add: keyword_overlap_def content_words_sample)

lemma validate_confidence:
  "fst (snd (validate_relevance F s (top_chunk # rest) q)) = score top_chunk"
  by (simp add: validate_relevance_def content_coverage_def Let_def)

text \<open>
  C5. A non-empty chunk list whose first chunk has a fused score strictly below the
  similarity threshold is blocked, however many chunks follow, and the confidence
  returned is the score of that first chunk.
\<close>

theorem validate_relevance_below_threshold:
  assumes "score top_chunk < similarity_threshold s"
  shows "validate_relevance F s (top_chunk # rest) q =
           (False, score top_chunk,
            ''Similarity score '' @ fmt_2f F (score top_chunk) @ '' below threshold '' @
            fmt_repr F (similarity_threshold s))"
  using assms by (simp add: validate_relevance_def Let_def)

theorem validate_relevance_below_threshold_witness:
  "score (sample_chunk sample_query (3/10)) < similarity_threshold default_settings \<and>
   validate_relevance sample_format default_settings
       [sample_chunk sample_query (3/10), sample_chunk sample_query (2/10),
        sample_chunk sample_query (1/10), sample_chunk sample_query (1/10)] sample_query
     = (False, 3/10, ''Similarity score <.2f> below threshold <repr>'')"
proof -
  have h: "score (sample_chunk sample_query (3/10)) < similarity_threshold default_settings"
    by (simp add: sample_chunk_def default_settings_def)
  from validate_relevance_below_threshold
         [OF h, of sample_format
            "[sample_chunk sample_query (2/10), sample_chunk sample_query (1/10),
              sample_chunk sample_query (1/10)]" sample_query] h
  show ?thesis by (simp add: sample_chunk_def sample_format_def)
qed

text \<open>
  C1, as the code has it. For three or more chunks whose top three fused scores are
  0.9, 0.5 and 0.4, the population variance of those scores is 7/150, which does not
  exceed the default variance threshold 0.1: under the default settings the consistency
  check passes, and the outcome is the one of the keyword coverage check, either
  acceptance or a block for low keyword overlap, with confidence 0.9.
\<close>

theorem validate_relevance_scores_09_05_04:
  assumes "score c1 = 9/10" "score c2 = 5/10" "score c3 = 4/10"
  shows "np_var (map score (take 3 (c1 # c2 # c3 # rest))) = 7/150 \<and>
         \<not> np_var (map score (take 3 (c1 # c2 # c3 # rest))) > variance_threshold default_settings \<and>
         validate_relevance F default_settings (c1 # c2 # c3 # rest) q
           = content_coverage F default_settings c1 q \<and>
         (validate_relevance F default_settings (c1 # c2 # c3 # rest) q
            = (True, 9/10, ''All validation checks passed'') \<or>
          validate_relevance F default_settings (c1 # c2 # c3 # rest) q
            = (False, 9/10, ''Low keyword overlap '' @ fmt_2f F (keyword_overlap q (content c1)) @
                 '' - retrieved content may not be relevant''))"
proof -
  have t: "take 3 (c1 # c2 # c3 # rest) = [c1, c2, c3]"
    by (simp add: numeral_3_eq_3)
  have v: "np_var (map score (take 3 (c1 # c2 # c3 # rest))) = 7/150"
    unfolding t list.map assms by (simp add: np_var_three power2_eq_square)
  have w: "\<not> np_var (map score (take 3 (c1 # c2 # c3 # rest))) > variance_threshold default_settings"
    unfolding v by (simp add: default_settings_def)
  have "\<not> score c1 < similarity_threshold default_settings"
    unfolding assms by (simp add: default_settings_def)
  with w have e: "validate_relevance F default_settings (c1 # c2 # c3 # rest) q
           = content_coverage F default_settings c1 q"
    by (simp add: validate_relevance_def Let_def del: take_Suc_Cons)
  have "content_coverage F default_settings c1 q = (True, 9/10, ''All validation checks passed'') \<or>
        content_coverage F default_settings c1 q
          = (False, 9/10, ''Low keyword overlap '' @ fmt_2f F (keyword_overlap q (content c1)) @
               '' - retrieved content may not be relevant'')"
    unfolding content_coverage_def Let_def assms by simp
  with v w e show ?thesis by simp
qed

theorem validate_relevance_scores_09_05_04_witness:
  "score (sample_chunk sample_query (9/10)) = 9/10 \<and>
   score (sample_chunk ''reset password'' (5/10)) = 5/10 \<and>
   score (sample_chunk ''delete account'' (4/10)) = 4/10 \<and>
   np_var [9/10, 5/10, 4/10] = 7/150 \<and>
   validate_relevance sample_format default_settings
     [sample_chunk sample_query (9/10), sample_chunk ''reset password'' (5/10),
      sample_chunk ''delete account'' (4/10)] ''pilot a submarine''
   = content_coverage sample_format default_settings (sample_chunk sample_query (9/10))
       ''pilot a submarine''"
proof -
  have h: "score (sample_chunk sample_query (9/10)) = 9/10"
    "score (sample_chunk ''reset password'' (5/10)) = 5/10"
    "score (sample_chunk ''delete account'' (4/10)) = 4/10"
    by (simp_all add: sample_chunk_def)
  have t: "take 3 [sample_chunk sample_query (9/10), sample_chunk ''reset password'' (5/10),
      sample_chunk ''delete account'' (4/10)]
    = [sample_chunk sample_query (9/10), sample_chunk ''reset password'' (5/10),
      sample_chunk ''delete account'' (4/10)]"
    by (simp add: numeral_3_eq_3)
  from validate_relevance_scores_09_05_04 [OF h, of "[]" sample_format "''pilot a submarine''"]
  show ?thesis unfolding t list.map h using h by simp
qed

text \<open>
  The claim C1 as stated fails: with the top three scores 0.9, 0.5 and 0.4 and a query
  whose words the top chunk covers, validation accepts; it does not block for variance.
\<close>

theorem validate_relevance_variance_counterexample:
  "validate_relevance sample_format default_settings
     [sample_chunk sample_query (9/10), sample_chunk ''reset password'' (5/10),
      sample_chunk ''delete account'' (4/10)] sample_query
   = (True, 9/10, ''All validation checks passed'')"
  by (simp add: validate_relevance_def content_coverage_def sample_chunk_def default_settings_def
      np_var_three power2_eq_square keyword_overlap_sample content_words_sample)

section \<open>Properties of the hybrid retriever\<close>

subsection \<open>The dictionary of fused scores\<close>

lemma combined_scores_Inr:
  "combined_scores r vdict bm25n = Inr items \<Longrightarrow>
   items = map (\<lambda>idx. (idx, combined_score r vdict bm25n idx)) [0 ..< length (r_document_texts r)]
   \<and> length (r_document_texts r) \<le> length bm25n"
  by (auto simp: combined_scores_def split: if_splits)

lemma combined_keys:
  "combined_scores r vdict bm25n = Inr items \<Longrightarrow> map fst items = [0 ..< length (r_document_texts r)]"
  by (auto dest!: combined_scores_Inr simp: comp_def)

lemma combined_entry:
  "combined_scores r vdict bm25n = Inr items \<Longrightarrow> (idx, v) \<in> set items \<Longrightarrow>
   idx < length (r_document_texts r) \<and> v = combined_score r vdict bm25n idx"
  by (auto dest!: combined_scores_Inr)

lemma score_of_entry:
  assumes "distinct (map fst items)" "(idx, v) \<in> set items"
  shows "score_of items idx = v"
  using assms by (simp add: score_of_def)

subsection \<open>Ranking\<close>

lemma sorted_indices_set: "set (sorted_indices items) = set items"
  by (simp add: sorted_indices_def)

lemma sorted_indices_mset: "mset (sorted_indices items) = mset items"
  by (simp add: sorted_indices_def)

lemma sorted_indices_length: "length (sorted_indices items) = length items"
  by (simp add: sorted_indices_def)

lemma sorted_indices_desc: "sorted_wrt (\<lambda>x y. snd y \<le> snd x) (sorted_indices items)"
proof -
  have "sorted (map (\<lambda>x. - snd x) (sorted_indices items))"
    by (simp add: sorted_indices_def)
  then show ?thesis by (simp add: sorted_wrt_map)
qed

lemma sorted_wrt_filter_nth:
  assumes "sorted_wrt R (filter P xs)" "i < j" "j < length xs" "P (xs ! i)" "P (xs ! j)"
  shows "R (xs ! i) (xs ! j)"
  using assms
proof (induction xs arbitrary: i j)
  case Nil
  then show ?case by simp
next
  case (Cons x xs)
  obtain j' where j: "j = Suc j'" using Cons.prems(2) by (cases j) auto
  have j'len: "j' < length xs" using Cons.prems(3) j by simp
  have Pj: "P (xs ! j')" using Cons.prems(5) j by simp
  show ?case
  proof (cases i)
    case 0
    then have "P x" using Cons.prems(4) by simp
    then have "\<forall>y \<in> set (filter P xs). R x y" using Cons.prems(1) by simp
    moreover have "xs ! j' \<in> set (filter P xs)" using j'len Pj by simp
    ultimately show ?thesis using 0 j by simp
  next
    case (Suc i')
    have "sorted_wrt R (filter P xs)" using Cons.prems(1) by (cases "P x") simp_all
    from Cons.IH [OF this, of i' j'] Cons.prems(2,4) Suc j j'len Pj show ?thesis by simp
  qed
qed

lemma sorted_indices_ties:
  assumes asc: "sorted_wrt (<) (map fst items)"
    and ij: "i < j" "j < length (sorted_indices items)"
    and eq: "snd (sorted_indices items ! i) = snd (sorted_indices items ! j)"
  shows "fst (sorted_indices items ! i) < fst (sorted_indices items ! j)"
proof -
  define v where "v = - snd (sorted_indices items ! i)"
  define P where "P = (\<lambda>y :: nat \<times> real. - snd y = v)"
  have Pi: "P (sorted_indices items ! i)" by (simp add: P_def v_def)
  have Pj: "P (sorted_indices items ! j)" unfolding P_def v_def eq ..
  have "sorted_wrt (\<lambda>x y. fst x < fst y) items" using asc by (simp add: sorted_wrt_map)
  then have "sorted_wrt (\<lambda>x y. fst x < fst y) (filter P items)" by (rule sorted_wrt_filter)
  moreover have "filter P (sorted_indices items) = filter P items"
    unfolding sorted_indices_def P_def by (rule sort_key_stable)
  ultimately have "sorted_wrt (\<lambda>x y. fst x < fst y) (filter P (sorted_indices items))" by simp
  from sorted_wrt_filter_nth [OF this ij Pi Pj] show ?thesis .
qed

lemma sorted_indices_nth_desc:
  assumes "i < j" "j < length (sorted_indices items)"
  shows "snd (sorted_indices items ! j) \<le> snd (sorted_indices items ! i)"
  using sorted_wrt_nth_less [OF sorted_indices_desc assms] .

text \<open>The ranking of a dictionary of fused scores, in the terms of the corpus.\<close>

lemma ranking_properties:
  assumes items: "combined_scores r vdict bm25n = Inr items"
  shows "mset (map fst (sorted_indices items)) = mset [0 ..< length (r_document_texts r)]"
    and "\<forall>x \<in> set (sorted_indices items). snd x = combined_score r vdict bm25n (fst x)"
    and "\<forall>i j. i < j \<and> j < length (sorted_indices items) \<longrightarrow>
        snd (sorted_indices items ! j) \<le> snd (sorted_indices items ! i) \<and>
        (snd (sorted_indices items ! i) = snd (sorted_indices items ! j) \<longrightarrow>
           fst (sorted_indices items ! i) < fst (sorted_indices items ! j))"
proof -
  have keys: "map fst items = [0 ..< length (r_document_texts r)]"
    using items by (rule combined_keys)
  have "mset (map fst (sorted_indices items)) = mset (map fst items)"
    by (simp add: sorted_indices_mset)
  then show "mset (map fst (sorted_indices items)) = mset [0 ..< length (r_document_texts r)]"
    unfolding keys .
  show "\<forall>x \<in> set (sorted_indices items). snd x = combined_score r vdict bm25n (fst x)"
  proof
    fix x assume "x \<in> set (sorted_indices items)"
    then have "(fst x, snd x) \<in> set items" by (simp add: sorted_indices_set)
    from combined_entry [OF items this] show "snd x = combined_score r vdict bm25n (fst x)" by simp
  qed
  have asc: "sorted_wrt (<) (map fst items)"
    unfolding keys by (simp add: sorted_wrt_iff_nth_less)
  show "\<forall>i j. i < j \<and> j < length (sorted_indices items) \<longrightarrow>
        snd (sorted_indices items ! j) \<le> snd (sorted_indices items ! i) \<and>
        (snd (sorted_indices items ! i) = snd (sorted_indices items ! j) \<longrightarrow>
           fst (sorted_indices items ! i) < fst (sorted_indices items ! j))"
    using sorted_indices_nth_desc sorted_indices_ties [OF asc] by blast
qed

subsection \<open>Returned documents\<close>

lemma normalized_eq:
  "bm25_scores \<noteq> [] \<Longrightarrow>
   bm25_scores_normalized r bm25_scores
     = Inr (map (\<lambda>x. norm_div (r_arith r) x (bm25_max bm25_scores)) bm25_scores)"
  by (simp add: bm25_scores_normalized_def bm25_max_def)

lemma top_index_entry:
  assumes items: "combined_scores r vdict bm25n = Inr items"
    and x: "x \<in> set (take n (sorted_indices items))"
  shows "fst x < length (r_document_texts r)" and "score_of items (fst x) = snd x"
proof -
  from x have "x \<in> set (sorted_indices items)" by (rule in_set_takeD)
  then have m: "(fst x, snd x) \<in> set items" by (simp add: sorted_indices_set)
  from combined_entry [OF items m] show "fst x < length (r_document_texts r)" by simp
  have d: "distinct (map fst items)" using combined_keys [OF items] by simp
  show "score_of items (fst x) = snd x" using d m by (rule score_of_entry)
qed

text \<open>
  What the retriever returns when its indices answer, the corpus is not empty and the
  BM25 scores and the metadata cover the corpus: the documents of the first \<open>k\<close>
  entries of the ranking.
\<close>

lemma get_relevant_documents_ranked:
  assumes hits: "r_vectorstore r q (r_k r * 2) = Inr hits"
    and tq: "split (lower q) \<noteq> []"
    and raw: "r_bm25_index r (split (lower q)) = Inr raw"
    and ne: "raw \<noteq> []"
    and len_raw: "length (r_document_texts r) \<le> length raw"
    and len_meta: "length (r_document_texts r) \<le> length (r_metadata r)"
  defines "vdict \<equiv> vector_scores_dict r Map.empty hits"
    and "bm25n \<equiv> map (\<lambda>x. norm_div (r_arith r) x (bm25_max raw)) raw"
  defines "items \<equiv> map (\<lambda>idx. (idx, combined_score r vdict bm25n idx))
                       [0 ..< length (r_document_texts r)]"
  shows "combined_scores r vdict bm25n = Inr items"
    and "get_relevant_documents r q =
           Inr (map (\<lambda>x. \<lparr> page_content = r_document_texts r ! fst x,
                            doc_meta = r_metadata r ! fst x,
                            doc_score = snd x,
                            doc_vector_score = get_or_zero vdict (fst x),
                            doc_bm25_score = bm25n ! fst x \<rparr>)
                  (take (r_k r) (sorted_indices items)))"
proof -
  have bn: "bm25_scores_normalized r raw = Inr bm25n"
    unfolding bm25n_def using ne by (rule normalized_eq)
  show cs: "combined_scores r vdict bm25n = Inr items"
    using len_raw by (simp add: combined_scores_def items_def bm25n_def)
  have inb: "\<not> (\<exists>idx \<in> set (top_indices r items). length (r_metadata r) \<le> idx)"
  proof
    assume "\<exists>idx \<in> set (top_indices r items). length (r_metadata r) \<le> idx"
    then obtain x where x: "x \<in> set (take (r_k r) (sorted_indices items))"
      and big: "length (r_metadata r) \<le> fst x"
      by (auto simp: top_indices_def)
    from top_index_entry(1) [OF cs x] len_meta big show False by simp
  qed
  have "map (build_document r vdict bm25n items) (top_indices r items)
        = map (\<lambda>x. \<lparr> page_content = r_document_texts r ! fst x,
                            doc_meta = r_metadata r ! fst x,
                            doc_score = snd x,
                            doc_vector_score = get_or_zero vdict (fst x),
                            doc_bm25_score = bm25n ! fst x \<rparr>)
                  (take (r_k r) (sorted_indices items))"
    using top_index_entry(2) [OF cs]
    by (simp add: top_indices_def build_document_def comp_def cong: map_cong)
  then have "build_results r vdict bm25n items (top_indices r items)
        = Inr (map (\<lambda>x. \<lparr> page_content = r_document_texts r ! fst x,
                            doc_meta = r_metadata r ! fst x,
                            doc_score = snd x,
                            doc_vector_score = get_or_zero vdict (fst x),
                            doc_bm25_score = bm25n ! fst x \<rparr>)
                  (take (r_k r) (sorted_indices items)))"
    using inb by (simp add: build_results_def)
  then show "get_relevant_documents r q =
           Inr (map (\<lambda>x. \<lparr> page_content = r_document_texts r ! fst x,
                            doc_meta = r_metadata r ! fst x,
                            doc_score = snd x,
                            doc_vector_score = get_or_zero vdict (fst x),
                            doc_bm25_score = bm25n ! fst x \<rparr>)
                  (take (r_k r) (sorted_indices items)))"
    using hits tq raw bn cs by (simp add: get_relevant_documents_def vdict_def)
qed

subsection \<open>Vector scores\<close>

lemma vector_scores_dict_lookup:
  "vector_scores_dict r d hits idx =
     (case filter (\<lambda>h. get_doc_index r (fst h) = Some idx) hits of
        [] \<Rightarrow> d idx
      | h # hs \<Rightarrow> Some (similarity r (snd (last (h # hs)))))"
proof (induction hits arbitrary: d)
  case Nil
  then show ?case by simp
next
  case (Cons h hits)
  let ?P = "\<lambda>h. get_doc_index r (fst h) = Some idx"
  obtain doc_id dst where h: "h = (doc_id, dst)" by (cases h)
  show ?case
  proof (cases "get_doc_index r doc_id")
    case None
    have step: "vector_scores_dict r d (h # hits) idx = vector_scores_dict r d hits idx"
      unfolding h using None by simp
    have flt: "filter ?P (h # hits) = filter ?P hits" using None h by simp
    show ?thesis unfolding step flt by (rule Cons.IH)
  next
    case (Some j)
    have step: "vector_scores_dict r d (h # hits) idx
                  = vector_scores_dict r (d(j \<mapsto> similarity r dst)) hits idx"
      unfolding h using Some by simp
    have flt: "filter ?P (h # hits) = (if j = idx then h # filter ?P hits else filter ?P hits)"
      using Some h by simp
    show ?thesis unfolding step flt Cons.IH
      by (cases "filter ?P hits") (auto simp: h)
  qed
qed

lemma vector_score_lookup:
  "get_or_zero (vector_scores_dict r Map.empty hits) idx =
     (case filter (\<lambda>h. get_doc_index r (fst h) = Some idx) hits of
        [] \<Rightarrow> 0
      | h # hs \<Rightarrow> similarity r (snd (last (h # hs))))"
  by (simp add: get_or_zero_def vector_scores_dict_lookup split: list.splits)

subsection \<open>Tokens of a query that is not blank\<close>

lemma strip_nonempty_char: "strip q \<noteq> [] \<Longrightarrow> \<exists>c \<in> set q. \<not> isspace c"
proof (rule ccontr)
  assume s: "strip q \<noteq> []" and "\<not> (\<exists>c \<in> set q. \<not> isspace c)"
  then have "\<forall>c \<in> set q. isspace c" by blast
  then have d: "dropWhile isspace q = []" by (simp only: dropWhile_eq_Nil_conv)
  have "strip q = []" unfolding strip_def d by simp
  with s show False by simp
qed

lemma split_from_nonempty:
  "cur \<noteq> [] \<or> (\<exists>c \<in> set s. \<not> isspace c) \<Longrightarrow> split_from cur s \<noteq> []"
  by (induction s arbitrary: cur) auto

lemma isspace_lower_char: "\<not> isspace c \<Longrightarrow> \<not> isspace (lower_char c)"
proof (cases "map_of (zip ''ABCDEFGHIJKLMNOPQRSTUVWXYZ'' ''abcdefghijklmnopqrstuvwxyz'') c")
  case None
  assume n: "\<not> isspace c"
  have "((of_char c :: nat) + 32) mod 256 \<notin> {9, 10, 11, 12, 13, 28, 29, 30, 31, 32, 133, 160}"
    if "192 \<le> (of_char c :: nat)" "(of_char c :: nat) \<le> 222"
    using that by (simp add: mod_if)
  with None n show ?thesis by (simp add: lower_char_def isspace_def)
next
  case (Some l)
  then have "l \<in> set ''abcdefghijklmnopqrstuvwxyz''"
    by (metis map_of_SomeD set_zip_rightD)
  then have "\<not> isspace l" by (auto simp: isspace_def)
  with Some show ?thesis by (simp add: lower_char_def)
qed

lemma split_lower_nonempty: "strip q \<noteq> [] \<Longrightarrow> split (lower q) \<noteq> []"
proof -
  assume "strip q \<noteq> []"
  then obtain c where c: "c \<in> set q" "\<not> isspace c" using strip_nonempty_char by blast
  then have "lower_char c \<in> set (lower q)" "\<not> isspace (lower_char c)"
    by (simp_all add: lower_def isspace_lower_char)
  then show ?thesis unfolding split_def by (intro split_from_nonempty) blast
qed

subsection \<open>Chunks\<close>

lemma slice_to_nonneg: "0 \<le> n \<Longrightarrow> slice_to xs n = take (nat n) xs"
  by (simp add: slice_to_def)

lemma slice_to_map: "slice_to (map f xs) n = map f (slice_to xs n)"
  by (simp add: slice_to_def take_map)

lemma strip_nonempty: "strip q \<noteq> [] \<Longrightarrow> q \<noteq> []"
  by (auto simp: strip_def)

lemma retrieve_of_documents:
  assumes "retriever p = Some r" "get_relevant_documents r q = Inr docs" "strip q \<noteq> []"
  shows "retrieve s p q top_k =
     Inr (map format_result
            (slice_to docs (case top_k of None \<Rightarrow> int (max_context_chunks s) | Some n \<Rightarrow> n)))"
  using assms strip_nonempty [OF assms(3)] by (simp add: retrieve_def)

subsection \<open>The sample corpora\<close>

lemma split_lower_sample:
  "split (lower sample_query) = [''update'', ''payment'', ''method'']"
  by (simp add: sample_query_def split_def isspace_def lower_def lower_char_def)

lemma strip_sample: "strip sample_query = sample_query"
  by (simp add: sample_query_def strip_def isspace_def)

lemma sample_query_nonempty: "sample_query \<noteq> []"
  by (simp add: sample_query_def)

lemma positive_default_chunks: "0 < max_context_chunks default_settings"
  by (simp add: default_settings_def)

lemma sample_documents:
  "0 < max_context_chunks s \<Longrightarrow> get_relevant_documents (sample_retriever s d raw) sample_query
    = Inr [\<lparr> page_content = ''Billing: update payment method in Settings'',
              doc_meta = sample_meta,
              doc_score = vector_weight s * (1 / (1 + d))
                          + bm25_weight s * (raw / (if 0 < raw then raw else 1)),
              doc_vector_score = 1 / (1 + d),
              doc_bm25_score = raw / (if 0 < raw then raw else 1) \<rparr>]"
  by (simp add: get_relevant_documents_def sample_retriever_def split_lower_sample
      get_doc_index_def sample_meta_def bm25_scores_normalized_def bm25_max_def
      combined_scores_def combined_score_def get_or_zero_def similarity_def exact_ops_def
      top_indices_def sorted_indices_def build_results_def build_document_def score_of_def
      take_Cons')

lemma sample_retrieve:
  "0 < max_context_chunks s \<Longrightarrow> 0 < max_context_chunks s' \<Longrightarrow> retrieve s' (sample_pipeline s d raw b) sample_query None
    = Inr [\<lparr> content = ''Billing: update payment method in Settings'',
              score = vector_weight s * (1 / (1 + d))
                          + bm25_weight s * (raw / (if 0 < raw then raw else 1)),
              metadata = \<lparr> cm_id = ''1'', cm_category = ''Billing'',
                    cm_question = ''How do I update my payment method?'',
                    cm_answer = ''Go to Settings > Billing...'',
                    cm_tags = [''billing'', ''payment''] \<rparr> \<rparr>]"
  by (simp add: retrieve_def sample_pipeline_def sample_documents strip_sample sample_query_nonempty
       slice_to_def format_result_def sample_meta_def take_Cons')

text \<open>The three-record corpus: indices of the hits, similarities, ranking.\<close>

lemma corpus_doc_index:
  "get_doc_index (corpus_retriever s hits raw) ''1'' = Some 0"
  "get_doc_index (corpus_retriever s hits raw) ''2'' = Some 1"
  "get_doc_index (corpus_retriever s hits raw) ''3'' = Some 2"
  by (simp_all add: get_doc_index_def corpus_retriever_def billing_meta_def invoice_meta_def
      password_meta_def)

lemma corpus_similarity:
  "similarity (corpus_retriever s hits raw) d = 1 / (1 + d)"
  by (simp add: similarity_def corpus_retriever_def exact_ops_def)

lemma corpus_combined_score:
  "combined_score (corpus_retriever s hits raw) vdict bm25n idx
     = vector_weight s * get_or_zero vdict idx + bm25_weight s * (bm25n ! idx)"
  by (simp add: combined_score_def corpus_retriever_def exact_ops_def)

lemma upt_3: "[0 ..< 3] = [0, 1, 2]"
  by (simp add: upt_rec [of 0] upt_rec [of 1] upt_rec [of 2] upt_rec [of "Suc 0"] numeral_3_eq_3)

lemma corpus_fields:
  "r_vectorstore (corpus_retriever s hits raw) q k = Inr hits"
  "r_bm25_index (corpus_retriever s hits raw) tokens = Inr raw"
  "r_document_texts (corpus_retriever s hits raw)
     = [''update payment method'', ''payment receipt'', ''reset password'']"
  "r_metadata (corpus_retriever s hits raw) = [billing_meta, invoice_meta, password_meta]"
  "r_k (corpus_retriever s hits raw) = max_context_chunks s"
  "r_vector_weight (corpus_retriever s hits raw) = vector_weight s"
  "r_bm25_weight (corpus_retriever s hits raw) = bm25_weight s"
  "norm_div (r_arith (corpus_retriever s hits raw)) = (/)"
  by (simp_all add: corpus_retriever_def exact_ops_def)

lemma corpus_vector_scores_a:
  "get_or_zero (vector_scores_dict (corpus_retriever s hits raw) Map.empty hits_a) 0 = 1"
  "get_or_zero (vector_scores_dict (corpus_retriever s hits raw) Map.empty hits_a) (Suc 0) = 1 / 2"
  "get_or_zero (vector_scores_dict (corpus_retriever s hits raw) Map.empty hits_a) (Suc (Suc 0)) = 1 / 4"
  "get_or_zero (vector_scores_dict (corpus_retriever s hits raw) Map.empty hits_a) 2 = 1 / 4"
  by (simp_all add: get_or_zero_def hits_a_def corpus_doc_index corpus_similarity)

lemma corpus_vector_scores_b:
  "get_or_zero (vector_scores_dict (corpus_retriever s hits raw) Map.empty hits_b) 0 = 1 / 2"
  "get_or_zero (vector_scores_dict (corpus_retriever s hits raw) Map.empty hits_b) (Suc 0) = 1"
  "get_or_zero (vector_scores_dict (corpus_retriever s hits raw) Map.empty hits_b) (Suc (Suc 0)) = 1 / 4"
  "get_or_zero (vector_scores_dict (corpus_retriever s hits raw) Map.empty hits_b) 2 = 1 / 4"
  by (simp_all add: get_or_zero_def hits_b_def corpus_doc_index corpus_similarity)

lemma corpus_documents:
  assumes "length raw = 3"
  shows "get_relevant_documents (corpus_retriever s hits raw) sample_query =
     Inr (map (\<lambda>x. \<lparr> page_content = [''update payment method'', ''payment receipt'', ''reset password''] ! fst x,
                      doc_meta = [billing_meta, invoice_meta, password_meta] ! fst x,
                      doc_score = snd x,
                      doc_vector_score =
                        get_or_zero (vector_scores_dict (corpus_retriever s hits raw) Map.empty hits) (fst x),
                      doc_bm25_score = map (\<lambda>x. x / bm25_max raw) raw ! fst x \<rparr>)
            (take (max_context_chunks s)
               (sorted_indices
                  (map (\<lambda>idx. (idx,
                          vector_weight s *
                            get_or_zero (vector_scores_dict (corpus_retriever s hits raw) Map.empty hits) idx
                          + bm25_weight s * (map (\<lambda>x. x / bm25_max raw) raw ! idx)))
                     [0, 1, 2]))))"
proof -
  let ?r = "corpus_retriever s hits raw"
  have hits: "r_vectorstore ?r sample_query (r_k ?r * 2) = Inr hits" by (simp add: corpus_fields)
  have tq: "split (lower sample_query) \<noteq> []" by (simp add: split_lower_sample)
  have raw: "r_bm25_index ?r (split (lower sample_query)) = Inr raw" by (simp add: corpus_fields)
  have ne: "raw \<noteq> []" using assms by auto
  have len_raw: "length (r_document_texts ?r) \<le> length raw" using assms by (simp add: corpus_fields)
  have len_meta: "length (r_document_texts ?r) \<le> length (r_metadata ?r)" by (simp add: corpus_fields)
  from get_relevant_documents_ranked(2) [OF hits tq raw ne len_raw len_meta]
  show ?thesis by (simp add: corpus_fields corpus_combined_score upt_3 eval_nat_numeral)
qed

lemma corpus_documents_a:
  "get_relevant_documents (corpus_retriever half_weights hits_a raw_a) sample_query =
     Inr [\<lparr> page_content = ''update payment method'', doc_meta = billing_meta,
             doc_score = 3 / 4, doc_vector_score = 1, doc_bm25_score = 1 / 2 \<rparr>,
          \<lparr> page_content = ''payment receipt'', doc_meta = invoice_meta,
             doc_score = 3 / 4, doc_vector_score = 1 / 2, doc_bm25_score = 1 \<rparr>]"
proof -
  have "length raw_a = 3" by (simp add: raw_a_def)
  from corpus_documents [OF this, of half_weights hits_a] show ?thesis
    by (simp add: corpus_vector_scores_a raw_a_def bm25_max_def half_weights_def
        default_settings_def sorted_indices_def numeral_2_eq_2)
qed

lemma corpus_documents_b:
  "get_relevant_documents (corpus_retriever half_weights hits_b raw_b) sample_query =
     Inr [\<lparr> page_content = ''update payment method'', doc_meta = billing_meta,
             doc_score = 3 / 4, doc_vector_score = 1 / 2, doc_bm25_score = 1 \<rparr>,
          \<lparr> page_content = ''payment receipt'', doc_meta = invoice_meta,
             doc_score = 3 / 4, doc_vector_score = 1, doc_bm25_score = 1 / 2 \<rparr>]"
proof -
  have "length raw_b = 3" by (simp add: raw_b_def)
  from corpus_documents [OF this, of half_weights hits_b] show ?thesis
    by (simp add: corpus_vector_scores_b raw_b_def bm25_max_def half_weights_def
        default_settings_def sorted_indices_def numeral_2_eq_2)
qed

lemma corpus_documents_equal_weights:
  "get_relevant_documents (corpus_retriever equal_weights hits_a raw_b) sample_query =
     Inr [\<lparr> page_content = ''update payment method'', doc_meta = billing_meta,
             doc_score = 2, doc_vector_score = 1, doc_bm25_score = 1 \<rparr>,
          \<lparr> page_content = ''payment receipt'', doc_meta = invoice_meta,
             doc_score = 1, doc_vector_score = 1 / 2, doc_bm25_score = 1 / 2 \<rparr>,
          \<lparr> page_content = ''reset password'', doc_meta = password_meta,
             doc_score = 1 / 4, doc_vector_score = 1 / 4, doc_bm25_score = 0 \<rparr>]"
proof -
  have "length raw_b = 3" by (simp add: raw_b_def)
  from corpus_documents [OF this, of equal_weights hits_a] show ?thesis
    by (simp add: corpus_vector_scores_a raw_b_def bm25_max_def equal_weights_def
        default_settings_def sorted_indices_def)
qed

section \<open>Properties of retrieval\<close>

text \<open>
  C6. When the indices answer a query with at least one token over a non-empty corpus
  (one raw BM25 score and one metadata entry per record), the retriever ranks every
  corpus record once, each with its fused score, in descending order of that score,
  and of two records with equal fused scores the one earlier in the corpus comes
  first; it returns the documents of the first \<open>k\<close> records of that ranking, in that
  order.
\<close>

theorem hybrid_ranking_stable_descending:
  assumes hits: "r_vectorstore r q (r_k r * 2) = Inr hits"
    and tq: "split (lower q) \<noteq> []"
    and raw: "r_bm25_index r (split (lower q)) = Inr raw"
    and ne: "raw \<noteq> []"
    and len_raw: "length (r_document_texts r) \<le> length raw"
    and len_meta: "length (r_document_texts r) \<le> length (r_metadata r)"
  shows "\<exists>bm25n ranking.
     bm25_scores_normalized r raw = Inr bm25n \<and>
     mset (map fst ranking) = mset [0 ..< length (r_document_texts r)] \<and>
     (\<forall>x \<in> set ranking.
        snd x = combined_score r (vector_scores_dict r Map.empty hits) bm25n (fst x)) \<and>
     (\<forall>i j. i < j \<and> j < length ranking \<longrightarrow>
        snd (ranking ! j) \<le> snd (ranking ! i) \<and>
        (snd (ranking ! i) = snd (ranking ! j) \<longrightarrow> fst (ranking ! i) < fst (ranking ! j))) \<and>
     get_relevant_documents r q =
       Inr (map (\<lambda>x. \<lparr> page_content = r_document_texts r ! fst x,
                        doc_meta = r_metadata r ! fst x,
                        doc_score = snd x,
                        doc_vector_score = get_or_zero (vector_scores_dict r Map.empty hits) (fst x),
                        doc_bm25_score = bm25n ! fst x \<rparr>)
              (take (r_k r) ranking))"
proof -
  let ?vd = "vector_scores_dict r Map.empty hits"
  let ?bn = "map (\<lambda>x. norm_div (r_arith r) x (bm25_max raw)) raw"
  let ?items = "map (\<lambda>idx. (idx, combined_score r ?vd ?bn idx)) [0 ..< length (r_document_texts r)]"
  have bn: "bm25_scores_normalized r raw = Inr ?bn" using ne by (rule normalized_eq)
  note ranked = get_relevant_documents_ranked [OF hits tq raw ne len_raw len_meta]
  note props = ranking_properties [OF ranked(1)]
  from bn props ranked(2) show ?thesis by blast
qed

theorem hybrid_ranking_stable_descending_witness:
  "get_relevant_documents (corpus_retriever half_weights hits_a raw_a) sample_query =
     Inr [\<lparr> page_content = ''update payment method'', doc_meta = billing_meta,
             doc_score = 3 / 4, doc_vector_score = 1, doc_bm25_score = 1 / 2 \<rparr>,
          \<lparr> page_content = ''payment receipt'', doc_meta = invoice_meta,
             doc_score = 3 / 4, doc_vector_score = 1 / 2, doc_bm25_score = 1 \<rparr>] \<and>
   (\<exists>ranking.
      mset (map fst ranking) = mset [0 ..< 3] \<and>
      get_relevant_documents (corpus_retriever half_weights hits_a raw_a) sample_query =
        Inr (map (\<lambda>x. \<lparr> page_content =
                           [''update payment method'', ''payment receipt'', ''reset password''] ! fst x,
                         doc_meta = [billing_meta, invoice_meta, password_meta] ! fst x,
                         doc_score = snd x,
                         doc_vector_score =
                           get_or_zero (vector_scores_dict (corpus_retriever half_weights hits_a raw_a)
                                          Map.empty hits_a) (fst x),
                         doc_bm25_score = map (\<lambda>x. x / 2) raw_a ! fst x \<rparr>)
               (take 2 ranking)))"
proof -
  let ?r = "corpus_retriever half_weights hits_a raw_a"
  have hits: "r_vectorstore ?r sample_query (r_k ?r * 2) = Inr hits_a" by (simp add: corpus_fields)
  have tq: "split (lower sample_query) \<noteq> []" by (simp add: split_lower_sample)
  have raw: "r_bm25_index ?r (split (lower sample_query)) = Inr raw_a" by (simp add: corpus_fields)
  have ne: "raw_a \<noteq> []" by (simp add: raw_a_def)
  have len_raw: "length (r_document_texts ?r) \<le> length raw_a"
    by (simp add: corpus_fields raw_a_def)
  have len_meta: "length (r_document_texts ?r) \<le> length (r_metadata ?r)"
    by (simp add: corpus_fields)
  have bn: "bm25_scores_normalized ?r raw_a = Inr (map (\<lambda>x. x / 2) raw_a)"
    using normalized_eq [OF ne, of ?r] by (simp add: corpus_fields bm25_max_def raw_a_def)
  have k: "r_k ?r = 2" by (simp add: corpus_fields half_weights_def)
  have n: "length (r_document_texts ?r) = 3" by (simp add: corpus_fields)
  from hybrid_ranking_stable_descending [OF hits tq raw ne len_raw len_meta]
  obtain bm25n ranking where
    b: "bm25_scores_normalized ?r raw_a = Inr bm25n"
    and m: "mset (map fst ranking) = mset [0 ..< length (r_document_texts ?r)]"
    and d: "get_relevant_documents ?r sample_query =
       Inr (map (\<lambda>x. \<lparr> page_content = r_document_texts ?r ! fst x,
                        doc_meta = r_metadata ?r ! fst x,
                        doc_score = snd x,
                        doc_vector_score = get_or_zero (vector_scores_dict ?r Map.empty hits_a) (fst x),
                        doc_bm25_score = bm25n ! fst x \<rparr>)
              (take (r_k ?r) ranking))"
    by blast
  from b bn have e: "bm25n = map (\<lambda>x. x / 2) raw_a" by simp
  from m d have "\<exists>ranking.
      mset (map fst ranking) = mset [0 ..< 3] \<and>
      get_relevant_documents ?r sample_query =
        Inr (map (\<lambda>x. \<lparr> page_content =
                           [''update payment method'', ''payment receipt'', ''reset password''] ! fst x,
                         doc_meta = [billing_meta, invoice_meta, password_meta] ! fst x,
                         doc_score = snd x,
                         doc_vector_score =
                           get_or_zero (vector_scores_dict ?r Map.empty hits_a) (fst x),
                         doc_bm25_score = map (\<lambda>x. x / 2) raw_a ! fst x \<rparr>)
               (take 2 ranking))"
    unfolding e k n by (auto simp: corpus_fields)
  with corpus_documents_a show ?thesis by blast
qed

text \<open>
  C4, as the code has it. When the indices answer a query that is not blank, every
  document that the hybrid retriever returns is one corpus record with its text and
  its metadata, the similarity of its last vector hit (0 without a hit), its normalised
  BM25 score, and as fused score the weighted sum of these two. Every chunk that
  \<^verbatim>\<open>retrieve\<close> returns is one of these documents, in the same order, with the text,
  the fused score and the id, category, question, answer and tags of the metadata; the
  two component scores are not in it.
\<close>

theorem retrieve_chunk_fields:
  fixes r :: hybrid_retriever and hits :: "(string \<times> real) list" and raw :: "real list"
  defines "vs \<equiv> \<lambda>idx. (case filter (\<lambda>h. get_doc_index r (fst h) = Some idx) hits of
                           [] \<Rightarrow> 0
                         | h # hs \<Rightarrow> similarity r (snd (last (h # hs))))"
    and "bs \<equiv> \<lambda>idx. norm_div (r_arith r) (raw ! idx) (bm25_max raw)"
  defines "fused \<equiv> \<lambda>idx. fuse_add (r_arith r)
                              (vec_mul (r_arith r) (r_vector_weight r) (vs idx))
                              (bm25_mul (r_arith r) (r_bm25_weight r) (bs idx))"
  assumes init: "retriever p = Some r"
    and nb: "strip q \<noteq> []"
    and hits: "r_vectorstore r q (r_k r * 2) = Inr hits"
    and raw: "r_bm25_index r (split (lower q)) = Inr raw"
    and ne: "raw \<noteq> []"
    and len_raw: "length (r_document_texts r) \<le> length raw"
    and len_meta: "length (r_document_texts r) \<le> length (r_metadata r)"
  shows "\<exists>idxs.
     length idxs \<le> r_k r \<and> distinct idxs \<and>
     set idxs \<subseteq> {0 ..< length (r_document_texts r)} \<and>
     get_relevant_documents r q =
       Inr (map (\<lambda>idx. \<lparr> page_content = r_document_texts r ! idx,
                          doc_meta = r_metadata r ! idx,
                          doc_score = fused idx,
                          doc_vector_score = vs idx,
                          doc_bm25_score = bs idx \<rparr>) idxs) \<and>
     retrieve s p q top_k =
       Inr (map (\<lambda>idx. \<lparr> content = r_document_texts r ! idx,
                          score = fused idx,
                          metadata = \<lparr> cm_id = meta_id (r_metadata r ! idx),
                                       cm_category = meta_category (r_metadata r ! idx),
                                       cm_question = meta_question (r_metadata r ! idx),
                                       cm_answer = meta_answer (r_metadata r ! idx),
                                       cm_tags = meta_tags (r_metadata r ! idx) \<rparr> \<rparr>)
              (slice_to idxs (case top_k of None \<Rightarrow> int (max_context_chunks s) | Some n \<Rightarrow> n)))"
proof -
  let ?vd = "vector_scores_dict r Map.empty hits"
  let ?bn = "map (\<lambda>x. norm_div (r_arith r) x (bm25_max raw)) raw"
  let ?items = "map (\<lambda>idx. (idx, combined_score r ?vd ?bn idx)) [0 ..< length (r_document_texts r)]"
  let ?top = "take (r_k r) (sorted_indices ?items)"
  let ?idxs = "map fst ?top"
  let ?n = "case top_k of None \<Rightarrow> int (max_context_chunks s) | Some n \<Rightarrow> n"
  have tq: "split (lower q) \<noteq> []" using nb by (rule split_lower_nonempty)
  note ranked = get_relevant_documents_ranked [OF hits tq raw ne len_raw len_meta]
  note props = ranking_properties [OF ranked(1)]
  have len: "length ?idxs \<le> r_k r" by simp
  have "distinct (map fst (sorted_indices ?items))"
  proof -
    have "mset (map fst (sorted_indices ?items)) = mset [0 ..< length (r_document_texts r)]"
      by (rule props(1))
    then show ?thesis by (metis distinct_upt mset_eq_imp_distinct_iff)
  qed
  then have dist: "distinct ?idxs" by (simp add: take_map [symmetric] distinct_take)
  have entry: "fst x < length (r_document_texts r) \<and> snd x = fused (fst x) \<and>
               get_or_zero ?vd (fst x) = vs (fst x) \<and> ?bn ! fst x = bs (fst x)"
    if x: "x \<in> set ?top" for x
  proof -
    from x have mem: "x \<in> set (sorted_indices ?items)" by (rule in_set_takeD)
    have lt: "fst x < length (r_document_texts r)" using top_index_entry(1) [OF ranked(1) x] .
    then have ltr: "fst x < length raw" using len_raw by simp
    have v: "get_or_zero ?vd (fst x) = vs (fst x)"
      unfolding vs_def by (rule vector_score_lookup)
    have b: "?bn ! fst x = bs (fst x)" unfolding bs_def using ltr by simp
    have "snd x = combined_score r ?vd ?bn (fst x)" using props(2) mem by blast
    then have "snd x = fused (fst x)"
      unfolding combined_score_def fused_def v b .
    with lt v b show ?thesis by blast
  qed
  then have sub: "set ?idxs \<subseteq> {0 ..< length (r_document_texts r)}" by auto
  have docs_eq: "map (\<lambda>x. \<lparr> page_content = r_document_texts r ! fst x,
                            doc_meta = r_metadata r ! fst x,
                            doc_score = snd x,
                            doc_vector_score = get_or_zero ?vd (fst x),
                            doc_bm25_score = ?bn ! fst x \<rparr>) ?top
        = map (\<lambda>idx. \<lparr> page_content = r_document_texts r ! idx,
                          doc_meta = r_metadata r ! idx,
                          doc_score = fused idx,
                          doc_vector_score = vs idx,
                          doc_bm25_score = bs idx \<rparr>) ?idxs"
    using entry by (simp add: comp_def cong: map_cong)
  have docs: "get_relevant_documents r q =
       Inr (map (\<lambda>idx. \<lparr> page_content = r_document_texts r ! idx,
                          doc_meta = r_metadata r ! idx,
                          doc_score = fused idx,
                          doc_vector_score = vs idx,
                          doc_bm25_score = bs idx \<rparr>) ?idxs)"
    using ranked(2) unfolding docs_eq .
  have "retrieve s p q top_k =
       Inr (map format_result
              (slice_to (map (\<lambda>idx. \<lparr> page_content = r_document_texts r ! idx,
                          doc_meta = r_metadata r ! idx,
                          doc_score = fused idx,
                          doc_vector_score = vs idx,
                          doc_bm25_score = bs idx \<rparr>) ?idxs) ?n))"
    using init docs nb by (rule retrieve_of_documents)
  then have chunks: "retrieve s p q top_k =
       Inr (map (\<lambda>idx. \<lparr> content = r_document_texts r ! idx,
                          score = fused idx,
                          metadata = \<lparr> cm_id = meta_id (r_metadata r ! idx),
                                       cm_category = meta_category (r_metadata r ! idx),
                                       cm_question = meta_question (r_metadata r ! idx),
                                       cm_answer = meta_answer (r_metadata r ! idx),
                                       cm_tags = meta_tags (r_metadata r ! idx) \<rparr> \<rparr>)
              (slice_to ?idxs ?n))"
    by (simp add: slice_to_map format_result_def comp_def)
  from len dist sub docs chunks show ?thesis by blast
qed

lemma corpus_retrieve:
  assumes "get_relevant_documents (corpus_retriever s hits raw) sample_query = Inr docs"
  shows "retrieve s' (corpus_pipeline s hits raw) sample_query top_k =
     Inr (map format_result
            (slice_to docs (case top_k of None \<Rightarrow> int (max_context_chunks s') | Some n \<Rightarrow> n)))"
proof -
  have init: "retriever (corpus_pipeline s hits raw) = Some (corpus_retriever s hits raw)"
    by (simp add: corpus_pipeline_def)
  have nb: "strip sample_query \<noteq> []" by (simp add: strip_sample sample_query_nonempty)
  from init assms nb show ?thesis by (rule retrieve_of_documents)
qed

lemma corpus_chunks_a:
  "retrieve half_weights (corpus_pipeline half_weights hits_a raw_a) sample_query None =
     Inr [\<lparr> content = ''update payment method'', score = 3 / 4,
             metadata = \<lparr> cm_id = ''1'', cm_category = ''Billing'',
                          cm_question = ''How do I update my payment method?'',
                          cm_answer = ''Go to Settings > Billing...'',
                          cm_tags = [''billing'', ''payment''] \<rparr> \<rparr>,
          \<lparr> content = ''payment receipt'', score = 3 / 4,
             metadata = \<lparr> cm_id = ''2'', cm_category = ''Billing'',
                          cm_question = ''Where is my payment receipt?'',
                          cm_answer = ''Open Billing > Invoices.'',
                          cm_tags = [''billing'', ''invoice''] \<rparr> \<rparr>]"
  using corpus_retrieve [OF corpus_documents_a, of half_weights None]
  by (simp add: slice_to_def format_result_def billing_meta_def invoice_meta_def
      half_weights_def default_settings_def)

lemma corpus_chunks_b:
  "retrieve half_weights (corpus_pipeline half_weights hits_b raw_b) sample_query None =
     Inr [\<lparr> content = ''update payment method'', score = 3 / 4,
             metadata = \<lparr> cm_id = ''1'', cm_category = ''Billing'',
                          cm_question = ''How do I update my payment method?'',
                          cm_answer = ''Go to Settings > Billing...'',
                          cm_tags = [''billing'', ''payment''] \<rparr> \<rparr>,
          \<lparr> content = ''payment receipt'', score = 3 / 4,
             metadata = \<lparr> cm_id = ''2'', cm_category = ''Billing'',
                          cm_question = ''Where is my payment receipt?'',
                          cm_answer = ''Open Billing > Invoices.'',
                          cm_tags = [''billing'', ''invoice''] \<rparr> \<rparr>]"
  using corpus_retrieve [OF corpus_documents_b, of half_weights None]
  by (simp add: slice_to_def format_result_def billing_meta_def invoice_meta_def
      half_weights_def default_settings_def)

theorem retrieve_chunk_fields_witness:
  "get_relevant_documents (corpus_retriever half_weights hits_a raw_a) sample_query =
     Inr [\<lparr> page_content = ''update payment method'', doc_meta = billing_meta,
             doc_score = 3 / 4, doc_vector_score = 1, doc_bm25_score = 1 / 2 \<rparr>,
          \<lparr> page_content = ''payment receipt'', doc_meta = invoice_meta,
             doc_score = 3 / 4, doc_vector_score = 1 / 2, doc_bm25_score = 1 \<rparr>] \<and>
   retrieve half_weights (corpus_pipeline half_weights hits_a raw_a) sample_query None =
     Inr [\<lparr> content = ''update payment method'', score = 3 / 4,
             metadata = \<lparr> cm_id = ''1'', cm_category = ''Billing'',
                          cm_question = ''How do I update my payment method?'',
                          cm_answer = ''Go to Settings > Billing...'',
                          cm_tags = [''billing'', ''payment''] \<rparr> \<rparr>,
          \<lparr> content = ''payment receipt'', score = 3 / 4,
             metadata = \<lparr> cm_id = ''2'', cm_category = ''Billing'',
                          cm_question = ''Where is my payment receipt?'',
                          cm_answer = ''Open Billing > Invoices.'',
                          cm_tags = [''billing'', ''invoice''] \<rparr> \<rparr>] \<and>
   (\<exists>idxs. length idxs \<le> 2 \<and> distinct idxs \<and> set idxs \<subseteq> {0 ..< (3 :: nat)})"
proof -
  let ?r = "corpus_retriever half_weights hits_a raw_a"
  have init: "retriever (corpus_pipeline half_weights hits_a raw_a) = Some ?r"
    by (simp add: corpus_pipeline_def)
  have nb: "strip sample_query \<noteq> []" by (simp add: strip_sample sample_query_nonempty)
  have hits: "r_vectorstore ?r sample_query (r_k ?r * 2) = Inr hits_a" by (simp add: corpus_fields)
  have raw: "r_bm25_index ?r (split (lower sample_query)) = Inr raw_a" by (simp add: corpus_fields)
  have ne: "raw_a \<noteq> []" by (simp add: raw_a_def)
  have len_raw: "length (r_document_texts ?r) \<le> length raw_a"
    by (simp add: corpus_fields raw_a_def)
  have len_meta: "length (r_document_texts ?r) \<le> length (r_metadata ?r)"
    by (simp add: corpus_fields)
  have k: "r_k ?r = 2" by (simp add: corpus_fields half_weights_def)
  have n: "length (r_document_texts ?r) = 3" by (simp add: corpus_fields)
  from retrieve_chunk_fields [OF init nb hits raw ne len_raw len_meta, of half_weights None]
  have "\<exists>idxs. length idxs \<le> r_k ?r \<and> distinct idxs \<and>
          set idxs \<subseteq> {0 ..< length (r_document_texts ?r)}"
    by blast
  then have "\<exists>idxs. length idxs \<le> 2 \<and> distinct idxs \<and> set idxs \<subseteq> {0 ..< (3 :: nat)}"
    unfolding k n .
  with corpus_documents_a corpus_chunks_a show ?thesis by blast
qed

text \<open>
  The claim C4 as stated fails: the chunks of \<^verbatim>\<open>retrieve\<close> do not carry the component
  scores. In two states of the indices the first document has the vector scores 1 and
  1/2 and the BM25 scores 1/2 and 1, and \<^verbatim>\<open>retrieve\<close> returns the same chunks.
\<close>

theorem retrieve_drops_component_scores_counterexample:
  "get_relevant_documents (corpus_retriever half_weights hits_a raw_a) sample_query =
     Inr [\<lparr> page_content = ''update payment method'', doc_meta = billing_meta,
             doc_score = 3 / 4, doc_vector_score = 1, doc_bm25_score = 1 / 2 \<rparr>,
          \<lparr> page_content = ''payment receipt'', doc_meta = invoice_meta,
             doc_score = 3 / 4, doc_vector_score = 1 / 2, doc_bm25_score = 1 \<rparr>] \<and>
   get_relevant_documents (corpus_retriever half_weights hits_b raw_b) sample_query =
     Inr [\<lparr> page_content = ''update payment method'', doc_meta = billing_meta,
             doc_score = 3 / 4, doc_vector_score = 1 / 2, doc_bm25_score = 1 \<rparr>,
          \<lparr> page_content = ''payment receipt'', doc_meta = invoice_meta,
             doc_score = 3 / 4, doc_vector_score = 1, doc_bm25_score = 1 / 2 \<rparr>] \<and>
   retrieve half_weights (corpus_pipeline half_weights hits_a raw_a) sample_query None =
     retrieve half_weights (corpus_pipeline half_weights hits_b raw_b) sample_query None"
  using corpus_documents_a corpus_documents_b corpus_chunks_a corpus_chunks_b by simp

lemma valid_equal_weights: "valid_settings equal_weights"
  by (simp add: valid_settings_def equal_weights_def default_settings_def)

text \<open>
  C3 fails on the code. The validators of the settings admit the weights 1 and 1; with
  them the record that is the nearest vector (distance 0) and the best lexical match
  gets the fused score 2, and \<^verbatim>\<open>retrieve\<close> returns it with that score, above 1.
\<close>

theorem retrieve_score_above_one:
  "valid_settings equal_weights \<and>
   retrieve equal_weights (corpus_pipeline equal_weights hits_a raw_b) sample_query (Some 2) =
     Inr [\<lparr> content = ''update payment method'', score = 2,
             metadata = \<lparr> cm_id = ''1'', cm_category = ''Billing'',
                          cm_question = ''How do I update my payment method?'',
                          cm_answer = ''Go to Settings > Billing...'',
                          cm_tags = [''billing'', ''payment''] \<rparr> \<rparr>,
          \<lparr> content = ''payment receipt'', score = 1,
             metadata = \<lparr> cm_id = ''2'', cm_category = ''Billing'',
                          cm_question = ''Where is my payment receipt?'',
                          cm_answer = ''Open Billing > Invoices.'',
                          cm_tags = [''billing'', ''invoice''] \<rparr> \<rparr>]"
  using corpus_retrieve [OF corpus_documents_equal_weights, of equal_weights "Some 2"]
    valid_equal_weights
  by (simp add: slice_to_def format_result_def billing_meta_def invoice_meta_def)

text \<open>
  C7 fails on the code. Over a corpus of one record the BM25 index can report a
  negative raw score; its maximum is then not positive, the divisor is 1, and the
  score reaches the returned document as it is, below 0.
\<close>

theorem bm25_negative_score_passes:
  "bm25_max [- 1 / 4] = 1 \<and>
   bm25_scores_normalized (sample_retriever half_weights 1 (- 1 / 4)) [- 1 / 4] = Inr [- 1 / 4] \<and>
   get_relevant_documents (sample_retriever half_weights 1 (- 1 / 4)) sample_query =
     Inr [\<lparr> page_content = ''Billing: update payment method in Settings'',
             doc_meta = sample_meta, doc_score = 1 / 8, doc_vector_score = 1 / 2,
             doc_bm25_score = - 1 / 4 \<rparr>]"
proof -
  have k: "0 < max_context_chunks half_weights" by (simp add: half_weights_def)
  have "get_relevant_documents (sample_retriever half_weights 1 (- 1 / 4)) sample_query =
     Inr [\<lparr> page_content = ''Billing: update payment method in Settings'',
             doc_meta = sample_meta, doc_score = 1 / 8, doc_vector_score = 1 / 2,
             doc_bm25_score = - 1 / 4 \<rparr>]"
    using sample_documents [OF k, of 1 "- 1 / 4"] by (simp add: half_weights_def default_settings_def)
  then show ?thesis
    by (simp add: bm25_scores_normalized_def bm25_max_def sample_retriever_def exact_ops_def)
qed

section \<open>Properties of the query operation\<close>


lemma starts_with_iff: "starts_with pat s \<longleftrightarrow> (\<exists>post. s = pat @ post)"
  by (induction pat s rule: starts_with.induct) auto

lemma str_contains_iff: "str_contains pat s \<longleftrightarrow> (\<exists>pre post. s = pre @ pat @ post)"
proof (induction s)
  case Nil
  then show ?case by auto
next
  case (Cons y ys)
  show ?case
  proof
    assume "str_contains pat (y # ys)"
    then consider "starts_with pat (y # ys)" | "str_contains pat ys" by auto
    then show "\<exists>pre post. y # ys = pre @ pat @ post"
    proof cases
      case 1
      then obtain post where "y # ys = pat @ post" by (auto simp: starts_with_iff)
      then have "y # ys = [] @ pat @ post" by simp
      then show ?thesis by blast
    next
      case 2
      then obtain pre post where "ys = pre @ pat @ post" using Cons.IH by auto
      then have "y # ys = (y # pre) @ pat @ post" by simp
      then show ?thesis by blast
    qed
  next
    assume "\<exists>pre post. y # ys = pre @ pat @ post"
    then obtain pre post where e: "y # ys = pre @ pat @ post" by auto
    show "str_contains pat (y # ys)"
    proof (cases pre)
      case Nil
      then have "starts_with pat (y # ys)" using e by (auto simp: starts_with_iff)
      then show ?thesis by simp
    next
      case (Cons a pre')
      then have "ys = pre' @ pat @ post" using e by simp
      then have "str_contains pat ys" using Cons.IH by blast
      then show ?thesis by simp
    qed
  qed
qed



subsection \<open>Answer post-processing\<close>





subsection \<open>The result of a query\<close>

lemma query_try_of_chunks:
  assumes "retrieve s p q None = Inr chunks"
  shows "query_try F s p t_start t_end q =
     Inr \<lparr> qr_answer = (if fst (validate_relevance F s chunks q)
                         then generate_answer F p q chunks
                         else blocked_answer s (snd (snd (validate_relevance F s chunks q)))),
           qr_chunks = map format_chunk chunks,
           qr_confidence = fst (snd (validate_relevance F s chunks q)),
           qr_blocked = (\<not> fst (validate_relevance F s chunks q)),
           qr_response_time_ms = (t_end - t_start) * 1000 \<rparr>"
  using assms by (simp add: query_try_def case_prod_beta)

lemma retrieve_blank: "q = [] \<or> strip q = [] \<Longrightarrow> retrieve s p q top_k = Inr []"
  by (simp add: retrieve_def)

lemma query_of_chunks:
  assumes "retrieve s p q None = Inr (best # rest)"
  shows "query F s p t_start t_end q =
     Inr \<lparr> qr_answer = (if fst (validate_relevance F s (best # rest) q)
                         then generate_answer F p q (best # rest)
                         else blocked_answer s (snd (snd (validate_relevance F s (best # rest) q)))),
           qr_chunks = map format_chunk (best # rest),
           qr_confidence = fst (snd (validate_relevance F s (best # rest) q)),
           qr_blocked = (\<not> fst (validate_relevance F s (best # rest) q)),
           qr_response_time_ms = (t_end - t_start) * 1000 \<rparr>"
proof -
  have "\<not> (q = [] \<or> strip q = [])" using assms retrieve_blank [of q s p None] by auto
  then show ?thesis using query_try_of_chunks [OF assms] by (simp add: query_def)
qed

text \<open>
  C10. For a non-empty chunk list the confidence that \<^verbatim>\<open>validate_relevance\<close> returns
  is the fused score of the first chunk, whatever the outcome, and \<^verbatim>\<open>query\<close> reports
  that value as the confidence of its result, also when the result is blocked.
\<close>

theorem validate_relevance_confidence_top_score:
  "fst (snd (validate_relevance F s (top_chunk # rest) q)) = score top_chunk \<and>
   (retrieve s p q None = Inr (top_chunk # rest) \<longrightarrow>
      (\<exists>res. query F s p t_start t_end q = Inr res \<and> qr_confidence res = score top_chunk))"
  using query_of_chunks [of s p q top_chunk rest F t_start t_end]
  by (simp add: validate_confidence)

lemma sample_variance_block:
  "validate_relevance sample_format default_settings
     [sample_chunk sample_query 1, sample_chunk sample_query (1/10), sample_chunk sample_query (1/10)]
     sample_query
   = (False, 1, ''High score variance <.3f> indicates ambiguous query'')"
  by (simp add: validate_relevance_def sample_chunk_def default_settings_def sample_format_def
      np_var_three power2_eq_square)

theorem validate_relevance_confidence_top_score_witness:
  "validate_relevance sample_format default_settings
     [sample_chunk sample_query 1, sample_chunk sample_query (1/10), sample_chunk sample_query (1/10)]
     sample_query
   = (False, 1, ''High score variance <.3f> indicates ambiguous query'') \<and>
   (\<exists>res. query sample_format default_settings (sample_pipeline default_settings 1 0 No_Model) 0 1
             sample_query = Inr res \<and> qr_confidence res = 7 / 20 \<and> qr_blocked res)"
proof -
  let ?p = "sample_pipeline default_settings 1 0 No_Model"
  let ?c = "\<lparr> content = ''Billing: update payment method in Settings'',
              score = 7 / 20,
              metadata = \<lparr> cm_id = ''1'', cm_category = ''Billing'',
                    cm_question = ''How do I update my payment method?'',
                    cm_answer = ''Go to Settings > Billing...'',
                    cm_tags = [''billing'', ''payment''] \<rparr> \<rparr>"
  have r: "retrieve default_settings ?p sample_query None = Inr (?c # [])"
    using sample_retrieve [OF positive_default_chunks positive_default_chunks, of 1 0 No_Model]
    by (simp add: default_settings_def)
  have b: "\<not> fst (validate_relevance sample_format default_settings (?c # []) sample_query)"
    by (simp add: validate_relevance_def default_settings_def Let_def)
  from validate_relevance_confidence_top_score
         [of sample_format default_settings ?c "[]" sample_query ?p 0 1] r
  obtain res where res: "query sample_format default_settings ?p 0 1 sample_query = Inr res"
    "qr_confidence res = 7 / 20" by auto
  from res(1) query_of_chunks [OF r, of sample_format 0 1] b have "qr_blocked res" by auto
  with res sample_variance_block show ?thesis by blast
qed


lemma retrieve_uninitialised:
  "strip q \<noteq> [] \<Longrightarrow> retriever p = None \<Longrightarrow> retrieve s p q top_k = Inl ValueError"
  by (auto simp: retrieve_def strip_def)

lemma retrieve_initialised:
  "retriever p = Some r \<Longrightarrow> \<exists>chunks. retrieve s p q top_k = Inr chunks"
  by (cases "get_relevant_documents r q") (simp_all add: retrieve_def)

lemma retrieve_absorbs_failure:
  "strip q \<noteq> [] \<Longrightarrow> retriever p = Some r \<Longrightarrow> get_relevant_documents r q = Inl e \<Longrightarrow>
   retrieve s p q top_k = Inr []"
  by (auto simp: retrieve_def)

lemma query_try_raises:
  assumes "query_try F s p t_start t_end q = Inl e"
  shows "strip q \<noteq> [] \<and> q \<noteq> [] \<and> retriever p = None"
proof -
  have r: "\<not> (\<exists>chunks. retrieve s p q None = Inr chunks)"
    using assms query_try_of_chunks [of s p q _ F t_start t_end] by auto
  then have "\<not> (q = [] \<or> strip q = [])" using retrieve_blank [of q s p None] by auto
  moreover have "retriever p = None"
    using r retrieve_initialised [of p _ s q None] by (cases "retriever p") auto
  ultimately show ?thesis by simp
qed

lemma query_total:
  "\<exists>res. query F s p t_start t_end q = Inr res \<and>
         qr_response_time_ms res = (t_end - t_start) * 1000"
proof (cases "q = [] \<or> strip q = []")
  case True
  then show ?thesis by (simp add: query_def)
next
  case False
  show ?thesis
  proof (cases "query_try F s p t_start t_end q")
    case (Inl e)
    with False show ?thesis by (simp add: query_def error_result_def)
  next
    case (Inr res)
    then have "qr_response_time_ms res = (t_end - t_start) * 1000"
      by (auto simp: query_try_def case_prod_beta split: sum.splits)
    with False Inr show ?thesis by (simp add: query_def)
  qed
qed

lemma query_handler:
  assumes "query_try F s p t_start t_end q = Inl e"
  shows "query F s p t_start t_end q = Inr (error_result t_start t_end)"
  using assms query_try_raises [OF assms] by (simp add: query_def)

lemma query_uninitialised:
  assumes "strip q \<noteq> []" "retriever p = None"
  shows "query F s p t_start t_end q = Inr (error_result t_start t_end)"
proof -
  have "query_try F s p t_start t_end q = Inl ValueError"
    using retrieve_uninitialised [OF assms] by (simp add: query_try_def)
  then show ?thesis by (rule query_handler)
qed

lemma query_retrieval_failure:
  assumes "strip q \<noteq> []" "retriever p = Some r" "get_relevant_documents r q = Inl e"
  shows "query F s p t_start t_end q =
     Inr \<lparr> qr_answer = blocked_answer s ''No chunks retrieved'',
           qr_chunks = [],
           qr_confidence = 0,
           qr_blocked = True,
           qr_response_time_ms = (t_end - t_start) * 1000 \<rparr>"
proof -
  have "retrieve s p q None = Inr []" using assms by (rule retrieve_absorbs_failure)
  from query_try_of_chunks [OF this, of F t_start t_end] assms(1) strip_nonempty [OF assms(1)]
  show ?thesis by (simp add: query_def validate_relevance_def)
qed

lemma query_generation_failure:
  assumes r: "retrieve s p q None = Inr (best # rest)"
    and v: "fst (validate_relevance F s (best # rest) q)"
    and g: "raw_answer p (build_prompt F q (best # rest)) best = Inl e"
  shows "query F s p t_start t_end q =
     Inr \<lparr> qr_answer = cm_answer (metadata best),
           qr_chunks = map format_chunk (best # rest),
           qr_confidence = score best,
           qr_blocked = False,
           qr_response_time_ms = (t_end - t_start) * 1000 \<rparr>"
proof -
  have "generate_answer F p q (best # rest) = cm_answer (metadata best)"
    using g by (simp add: generate_answer_def)
  with query_of_chunks [OF r, of F t_start t_end] v validate_confidence [of F s best rest q]
  show ?thesis by simp
qed

text \<open>
  C2, as the code has it. \<^verbatim>\<open>query\<close> always returns a result, with the elapsed time
  filled in. An exception that leaves \<^verbatim>\<open>retrieve\<close>, which is the case when the
  retriever is missing, reaches the handler of \<^verbatim>\<open>query\<close> and becomes the blocked
  result with the apology, confidence 0 and no chunks. An exception inside the hybrid
  retriever is caught by \<^verbatim>\<open>retrieve\<close>, which returns no chunks: the result is blocked
  with confidence 0 and the refusal answer. An exception of the generation backend is
  caught by \<^verbatim>\<open>generate_answer\<close>, which returns the stored answer of the top chunk: the
  result is not blocked and keeps its chunks and its confidence.
\<close>

theorem query_never_raises:
  "\<exists>res. query F s p t_start t_end q = Inr res \<and>
     qr_response_time_ms res = (t_end - t_start) * 1000 \<and>
     ((\<exists>e. query_try F s p t_start t_end q = Inl e) \<longrightarrow> res = error_result t_start t_end) \<and>
     (strip q \<noteq> [] \<and> retriever p = None \<longrightarrow> res = error_result t_start t_end) \<and>
     (\<forall>r e. strip q \<noteq> [] \<and> retriever p = Some r \<and> get_relevant_documents r q = Inl e \<longrightarrow>
        res = \<lparr> qr_answer = blocked_answer s ''No chunks retrieved'',
                qr_chunks = [],
                qr_confidence = 0,
                qr_blocked = True,
                qr_response_time_ms = (t_end - t_start) * 1000 \<rparr>) \<and>
     (\<forall>best rest e.
        retrieve s p q None = Inr (best # rest) \<and> fst (validate_relevance F s (best # rest) q) \<and>
        raw_answer p (build_prompt F q (best # rest)) best = Inl e \<longrightarrow>
        res = \<lparr> qr_answer = cm_answer (metadata best),
                qr_chunks = map format_chunk (best # rest),
                qr_confidence = score best,
                qr_blocked = False,
                qr_response_time_ms = (t_end - t_start) * 1000 \<rparr>)"
proof -
  from query_total [of F s p t_start t_end q]
  obtain res where res: "query F s p t_start t_end q = Inr res"
    and tm: "qr_response_time_ms res = (t_end - t_start) * 1000" by blast
  have a: "(\<exists>e. query_try F s p t_start t_end q = Inl e) \<longrightarrow> res = error_result t_start t_end"
    using res query_handler [of F s p t_start t_end q] by auto
  have b: "strip q \<noteq> [] \<and> retriever p = None \<longrightarrow> res = error_result t_start t_end"
    using res query_uninitialised [of q p F s t_start t_end] by auto
  have c: "\<forall>r e. strip q \<noteq> [] \<and> retriever p = Some r \<and> get_relevant_documents r q = Inl e \<longrightarrow>
        res = \<lparr> qr_answer = blocked_answer s ''No chunks retrieved'',
                qr_chunks = [],
                qr_confidence = 0,
                qr_blocked = True,
                qr_response_time_ms = (t_end - t_start) * 1000 \<rparr>"
    using res query_retrieval_failure [of q p _ _ F s t_start t_end] by auto
  have d: "\<forall>best rest e.
        retrieve s p q None = Inr (best # rest) \<and> fst (validate_relevance F s (best # rest) q) \<and>
        raw_answer p (build_prompt F q (best # rest)) best = Inl e \<longrightarrow>
        res = \<lparr> qr_answer = cm_answer (metadata best),
                qr_chunks = map format_chunk (best # rest),
                qr_confidence = score best,
                qr_blocked = False,
                qr_response_time_ms = (t_end - t_start) * 1000 \<rparr>"
    using res query_generation_failure [of s p q _ _ F _ t_start t_end] by auto
  from res tm a b c d show ?thesis by blast
qed

theorem query_never_raises_witness:
  "query sample_format default_settings uninitialised_pipeline 0 1 sample_query
     = Inr \<lparr> qr_answer = ''I encountered an error while processing your question. Please try again or contact support.'',
             qr_chunks = [],
             qr_confidence = 0,
             qr_blocked = True,
             qr_response_time_ms = 1000 \<rparr>"
proof -
  have h: "strip sample_query \<noteq> [] \<and> retriever uninitialised_pipeline = None"
    by (simp add: strip_sample sample_query_nonempty uninitialised_pipeline_def)
  from query_never_raises [of sample_format default_settings uninitialised_pipeline 0 1 sample_query] h
  have "query sample_format default_settings uninitialised_pipeline 0 1 sample_query
          = Inr (error_result 0 1)" by auto
  then show ?thesis by (simp add: error_result_def)
qed

text \<open>
  The claim C2 as stated fails: when the generation backend raises, the result of
  \<^verbatim>\<open>query\<close> is not blocked; it carries the stored answer of the top chunk, the
  chunk and the confidence 1.
\<close>

lemma content_words_sample_text:
  "content_words ''Billing: update payment method in Settings''
     = {''billing:'', ''update'', ''payment'', ''method'', ''settings''}"
  by (simp add: content_words_def split_def isspace_def lower_def lower_char_def)

lemma sample_accepts:
  "validate_relevance sample_format default_settings
     [\<lparr> content = ''Billing: update payment method in Settings'', score = 1,
        metadata = \<lparr> cm_id = ''1'', cm_category = ''Billing'',
                    cm_question = ''How do I update my payment method?'',
                    cm_answer = ''Go to Settings > Billing...'',
                    cm_tags = [''billing'', ''payment''] \<rparr> \<rparr>] sample_query
   = (True, 1, ''All validation checks passed'')"
  by (simp add: validate_relevance_def content_coverage_def default_settings_def
      keyword_overlap_def content_words_sample content_words_sample_text)

theorem query_generation_failure_counterexample:
  "raw_answer (sample_pipeline default_settings 0 1 failing_backend)
     (build_prompt sample_format sample_query
        [\<lparr> content = ''Billing: update payment method in Settings'', score = 1,
           metadata = \<lparr> cm_id = ''1'', cm_category = ''Billing'',
                    cm_question = ''How do I update my payment method?'',
                    cm_answer = ''Go to Settings > Billing...'',
                    cm_tags = [''billing'', ''payment''] \<rparr> \<rparr>])
     \<lparr> content = ''Billing: update payment method in Settings'', score = 1,
           metadata = \<lparr> cm_id = ''1'', cm_category = ''Billing'',
                    cm_question = ''How do I update my payment method?'',
                    cm_answer = ''Go to Settings > Billing...'',
                    cm_tags = [''billing'', ''payment''] \<rparr> \<rparr>
     = Inl (External ''inference endpoint unavailable'') \<and>
   query sample_format default_settings (sample_pipeline default_settings 0 1 failing_backend) 0 1
     sample_query
     = Inr \<lparr> qr_answer = ''Go to Settings > Billing...'',
             qr_chunks = [\<lparr> fc_content = ''Billing: update payment method in Settings'',
                           fc_score = 1,
                           fc_metadata = \<lparr> fm_id = ''1'', fm_category = ''Billing'' \<rparr> \<rparr>],
             qr_confidence = 1,
             qr_blocked = False,
             qr_response_time_ms = 1000 \<rparr>"
proof -
  let ?p = "sample_pipeline default_settings 0 1 failing_backend"
  let ?c = "\<lparr> content = ''Billing: update payment method in Settings'', score = 1,
           metadata = \<lparr> cm_id = ''1'', cm_category = ''Billing'',
                    cm_question = ''How do I update my payment method?'',
                    cm_answer = ''Go to Settings > Billing...'',
                    cm_tags = [''billing'', ''payment''] \<rparr> \<rparr>"
  have r: "retrieve default_settings ?p sample_query None = Inr (?c # [])"
    using sample_retrieve [OF positive_default_chunks positive_default_chunks, of 0 1 failing_backend]
    by (simp add: default_settings_def)
  have v: "fst (validate_relevance sample_format default_settings (?c # []) sample_query)"
    by (simp add: sample_accepts)
  have g: "raw_answer ?p (build_prompt sample_format sample_query (?c # [])) ?c
             = Inl (External ''inference endpoint unavailable'')"
    by (simp add: raw_answer_def sample_pipeline_def failing_backend_def)
  from query_generation_failure [OF r v g, of 0 1] g
  show ?thesis by (simp add: format_chunk_def)
qed

end
